theory Spec2Isabelle
  imports Main "HOL-Library.Word"
begin

unbundle bit_operations_syntax

section \<open>Python values used by the code\<close>

text \<open>
  A Python \<open>str\<close> is represented by the list of the bytes of its UTF-8 encoding, one
  \<^typ>\<open>char\<close> per byte, so that the empty \<open>str\<close> is \<open>[]\<close> and \<open>s.encode()\<close> reads the
  bytes off. A \<open>bytes\<close> object is a list of 8-bit words. \<open>bytes.decode()\<close> checks that the
  bytes are well-formed UTF-8 and raises \<open>UnicodeDecodeError\<close> otherwise. A timestamp is a
  number of microseconds since the epoch.
\<close>

type_synonym byte = "8 word"
type_synonym timestamp = int
type_synonym dict = "string \<rightharpoonup> string"

datatype exc =
    ZeroDivisionError | BinasciiError | UnicodeDecodeError | ValueError | OverflowError
  | DoesNotExist | MultipleObjectsReturned | RequestException | JSONDecodeError

text \<open>A raised exception: its class and the text that \<open>str(e)\<close> gives.\<close>

datatype py_error = Raised exc string

fun str_exc :: "py_error \<Rightarrow> string" where
  "str_exc (Raised c msg) = msg"

fun exc_class :: "py_error \<Rightarrow> exc" where
  "exc_class (Raised c msg) = c"

definition truthy :: "string option \<Rightarrow> bool" where
  "truthy v = (case v of None \<Rightarrow> False | Some s \<Rightarrow> s \<noteq> [])"

text \<open>\<open>v or d\<close> on an optional \<open>str\<close>.\<close>

definition str_or :: "string option \<Rightarrow> string \<Rightarrow> string" where
  "str_or v d = (case v of None \<Rightarrow> d | Some s \<Rightarrow> if s = [] then d else s)"

text \<open>\<open>m.get(k, d)\<close> on a dict.\<close>

definition dict_get :: "dict \<Rightarrow> string \<Rightarrow> string \<Rightarrow> string" where
  "dict_get m k d = (case m k of Some v \<Rightarrow> v | None \<Rightarrow> d)"

definition byte_of_nat :: "nat \<Rightarrow> byte" where
  "byte_of_nat n = of_nat n"

definition str_encode :: "string \<Rightarrow> byte list" where
  "str_encode s = map (\<lambda>c. byte_of_nat (of_char c)) s"

definition in_range :: "nat \<Rightarrow> nat \<Rightarrow> nat \<Rightarrow> bool" where
  "in_range lo hi b = (lo \<le> b \<and> b \<le> hi)"

text \<open>Well-formed UTF-8 byte sequences (the table of the Unicode standard, which the
  strict decoder of Python follows: no overlong forms, no surrogates, nothing above
  U+10FFFF).\<close>

fun utf8_valid :: "nat list \<Rightarrow> bool" where
  "utf8_valid [] = True"
| "utf8_valid (b0 # bs) =
     (if b0 < 0x80 then utf8_valid bs
      else if in_range 0xC2 0xDF b0 then
        (case bs of
           b1 # r \<Rightarrow> in_range 0x80 0xBF b1 \<and> utf8_valid r
         | _ \<Rightarrow> False)
      else if in_range 0xE0 0xEF b0 then
        (case bs of
           b1 # b2 # r \<Rightarrow>
             in_range (if b0 = 0xE0 then 0xA0 else 0x80) (if b0 = 0xED then 0x9F else 0xBF) b1
             \<and> in_range 0x80 0xBF b2 \<and> utf8_valid r
         | _ \<Rightarrow> False)
      else if in_range 0xF0 0xF4 b0 then
        (case bs of
           b1 # b2 # b3 # r \<Rightarrow>
             in_range (if b0 = 0xF0 then 0x90 else 0x80) (if b0 = 0xF4 then 0x8F else 0xBF) b1
             \<and> in_range 0x80 0xBF b2 \<and> in_range 0x80 0xBF b3 \<and> utf8_valid r
         | _ \<Rightarrow> False)
      else False)"

definition bytes_decode :: "byte list \<Rightarrow> py_error + string" where
  "bytes_decode bs =
     (if utf8_valid (map unat bs) then Inr (map (\<lambda>b. char_of (unat b)) bs)
      else Inl (Raised UnicodeDecodeError ''invalid utf-8''))"

text \<open>The representation invariant of a \<open>str\<close>: its bytes are well-formed UTF-8.\<close>

definition is_str :: "string \<Rightarrow> bool" where
  "is_str s = utf8_valid (map of_char s)"

definition str_upper :: "string \<Rightarrow> string" where
  "str_upper s =
     map (\<lambda>c. if in_range 97 122 (of_char c) then char_of (of_char c - (32::nat)) else c) s"

definition lstrip :: "char \<Rightarrow> string \<Rightarrow> string" where
  "lstrip c s = dropWhile (\<lambda>x. x = c) s"

definition rstrip :: "char \<Rightarrow> string \<Rightarrow> string" where
  "rstrip c s = rev (dropWhile (\<lambda>x. x = c) (rev s))"

fun str_of_nat :: "nat \<Rightarrow> string" where
  "str_of_nat n =
     (if n < 10 then [char_of (48 + n)]
      else str_of_nat (n div 10) @ [char_of (48 + n mod 10)])"

definition str_of_int :: "int \<Rightarrow> string" where
  "str_of_int i = (if i < 0 then CHR ''-'' # str_of_nat (nat (- i)) else str_of_nat (nat i))"

subsection \<open>datetime\<close>

text \<open>
  \<open>timedelta(seconds=n)\<close> raises \<open>OverflowError\<close> when its days, \<open>n // 86400\<close>, exceed
  999999999 in magnitude, and the sum of a datetime and a timedelta raises it when the
  result lies outside the years 1 to 9999: before 0001-01-01 00:00:00 or after
  9999-12-31 23:59:59.999999, in microseconds since the epoch.
\<close>

definition timedelta_seconds :: "int \<Rightarrow> py_error + int" where
  "timedelta_seconds n =
     (if - 999999999 \<le> n div 86400 \<and> n div 86400 \<le> 999999999 then Inr (n * 1000000)
      else Inl (Raised OverflowError ''days must have magnitude <= 999999999''))"

definition datetime_min :: timestamp where
  "datetime_min = - 62135596800000000"

definition datetime_max :: timestamp where
  "datetime_max = 253402300799999999"

definition datetime_add :: "timestamp \<Rightarrow> int \<Rightarrow> py_error + timestamp" where
  "datetime_add t d =
     (if datetime_min \<le> t + d \<and> t + d \<le> datetime_max then Inr (t + d)
      else Inl (Raised OverflowError ''date value out of range''))"

subsection \<open>base64\<close>

text \<open>
  \<open>base64.b64encode\<close> and, for \<open>base64.b64decode\<close> with its default \<open>validate=False\<close>,
  the loop of \<open>binascii.a2b_base64\<close> (CPython 3.11 and later): characters outside the
  alphabet are skipped, a pad character ends the input once the quad is complete, and
  leftover characters raise \<open>binascii.Error\<close>. The encoder yields ASCII only, so its result
  is given as the \<open>str\<close> that \<open>.decode()\<close> makes of it, and the decoder reads the \<open>str\<close>
  that the caller encodes: every byte of a non-ASCII character is outside the alphabet.
\<close>

definition b64_alphabet :: string where
  "b64_alphabet = ''ABCDEFGHIJKLMNOPQRSTUVWXYZabcdefghijklmnopqrstuvwxyz0123456789+/''"

definition b64_char :: "nat \<Rightarrow> char" where
  "b64_char n = b64_alphabet ! n"

fun index_of :: "'a \<Rightarrow> 'a list \<Rightarrow> nat option" where
  "index_of x [] = None"
| "index_of x (y # ys) = (if x = y then Some 0 else map_option Suc (index_of x ys))"

definition table_a2b_base64 :: "char \<Rightarrow> nat option" where
  "table_a2b_base64 c = index_of c b64_alphabet"

fun b64encode :: "byte list \<Rightarrow> string" where
  "b64encode [] = []"
| "b64encode [a] =
     [b64_char (unat a div 4), b64_char (unat a mod 4 * 16), CHR ''='', CHR ''='']"
| "b64encode [a, b] =
     [b64_char (unat a div 4), b64_char (unat a mod 4 * 16 + unat b div 16),
      b64_char (unat b mod 16 * 4), CHR ''='']"
| "b64encode (a # b # c # rest) =
     b64_char (unat a div 4) # b64_char (unat a mod 4 * 16 + unat b div 16) #
     b64_char (unat b mod 16 * 4 + unat c div 64) # b64_char (unat c mod 64) #
     b64encode rest"

fun a2b_base64 :: "nat \<Rightarrow> nat \<Rightarrow> nat \<Rightarrow> string \<Rightarrow> byte list option" where
  "a2b_base64 quad_pos leftchar pads [] = (if quad_pos \<noteq> 0 then None else Some [])"
| "a2b_base64 quad_pos leftchar pads (this_ch # rest) =
     (if this_ch = CHR ''='' then
        (if quad_pos \<ge> 2 then
           (if quad_pos + (pads + 1) \<ge> 4 then Some []
            else a2b_base64 quad_pos leftchar (pads + 1) rest)
         else a2b_base64 quad_pos leftchar pads rest)
      else
        (case table_a2b_base64 this_ch of
           None \<Rightarrow> a2b_base64 quad_pos leftchar pads rest
         | Some v \<Rightarrow>
             (if quad_pos = 0 then a2b_base64 1 v 0 rest
              else if quad_pos = 1 then
                map_option ((#) (byte_of_nat (leftchar * 4 + v div 16)))
                  (a2b_base64 2 (v mod 16) 0 rest)
              else if quad_pos = 2 then
                map_option ((#) (byte_of_nat (leftchar * 16 + v div 4)))
                  (a2b_base64 3 (v mod 4) 0 rest)
              else
                map_option ((#) (byte_of_nat (leftchar * 64 + v)))
                  (a2b_base64 0 0 0 rest))))"

definition b64decode :: "string \<Rightarrow> py_error + byte list" where
  "b64decode s =
     (case a2b_base64 0 0 0 s of
        None \<Rightarrow> Inl (Raised BinasciiError ''Incorrect padding'')
      | Some bs \<Rightarrow> Inr bs)"

definition urlsafe_b64encode :: "byte list \<Rightarrow> string" where
  "urlsafe_b64encode s =
     map (\<lambda>c. if c = CHR ''+'' then CHR ''-'' else if c = CHR ''/'' then CHR ''_'' else c)
       (b64encode s)"

section \<open>accounts/utils.py: TokenManager, the token codec\<close>

definition xor_bytes :: "byte list \<Rightarrow> byte list \<Rightarrow> byte list" where
  "xor_bytes xs ks = map (\<lambda>(a, b). a XOR b) (zip xs ks)"

definition repeat_bytes :: "byte list \<Rightarrow> nat \<Rightarrow> byte list" where
  "repeat_bytes key n = concat (replicate n key)"

text \<open>
  \<open>encrypt_token\<close>. The first argument is \<open>settings.SECRET_KEY\<close>. The floor division by
  \<open>len(key)\<close> raises when the key is empty; nothing catches it here.
\<close>

definition encrypt_token :: "string \<Rightarrow> string \<Rightarrow> py_error + string" where
  "encrypt_token secret_key token =
     (if token = [] then Inr []
      else
        let key = str_encode secret_key;
            token_bytes = str_encode token
        in if key = [] then Inl (Raised ZeroDivisionError ''integer division or modulo by zero'')
           else
             let encrypted =
                   xor_bytes token_bytes
                     (repeat_bytes key (length token_bytes div length key + 1))
             in Inr (b64encode encrypted))"

text \<open>The body of the \<open>try\<close> of \<open>decrypt_token\<close>, then the function with its \<open>except\<close>.\<close>

definition decrypt_token_try :: "string \<Rightarrow> string \<Rightarrow> py_error + string" where
  "decrypt_token_try secret_key encrypted_token =
     (let key = str_encode secret_key in
      case b64decode encrypted_token of
        Inl e \<Rightarrow> Inl e
      | Inr encrypted_bytes \<Rightarrow>
          if key = [] then Inl (Raised ZeroDivisionError ''integer division or modulo by zero'')
          else
            let decrypted =
                  xor_bytes encrypted_bytes
                    (repeat_bytes key (length encrypted_bytes div length key + 1))
            in bytes_decode decrypted)"

definition decrypt_token :: "string \<Rightarrow> string \<Rightarrow> string" where
  "decrypt_token secret_key encrypted_token =
     (if encrypted_token = [] then []
      else case decrypt_token_try secret_key encrypted_token of
             Inl e \<Rightarrow> []
           | Inr s \<Rightarrow> s)"

section \<open>accounts/models.py: the stored rows\<close>

text \<open>
  A row carries its primary key \<open>pk\<close>; a foreign key is the key of the row it points to.
  Fields that several models share carry the model's name.
\<close>

record SocialMediaAccount =
  pk :: nat
  user :: nat
  platform :: string
  platform_user_id :: string
  username :: string
  display_name :: string
  email :: string
  profile_url :: string
  avatar_url :: string
  access_token :: string
  refresh_token :: "string option"
  token_expires_at :: "timestamp option"
  scope :: string
  status :: string
  last_sync :: "timestamp option"
  follower_count :: int
  following_count :: int
  posts_count :: int
  extra_data :: dict
  created_at :: timestamp
  updated_at :: timestamp

record APICallLog =
  log_pk :: nat
  log_user :: nat
  log_social_account :: nat
  endpoint :: string
  log_method :: string
  status_code :: int
  response_time :: int
  rate_limit_remaining :: "int option"
  rate_limit_reset :: "timestamp option"
  error_message :: string
  log_created_at :: timestamp

record SessionData =
  session_pk :: nat
  session_user :: nat
  session_social_account :: "nat option"
  oauth_state :: string
  code_verifier :: string
  redirect_uri :: string
  temp_data :: dict
  ip_address :: "string option"
  user_agent :: string
  expires_at :: timestamp
  session_created_at :: timestamp

text \<open>
  The other models that point to an account with \<open>on_delete=CASCADE\<close> (UserAnalytics, and
  the models of linkedIn/models.py and twitter/models.py). The code modelled here reads
  none of their columns but the foreign key.
\<close>

record related_row =
  related_pk :: nat
  related_social_account :: nat

record database =
  social_accounts :: "SocialMediaAccount list"
  api_call_logs :: "APICallLog list"
  user_analytics :: "related_row list"
  session_rows :: "SessionData list"
  linkedin_profiles :: "related_row list"
  linkedin_posts :: "related_row list"
  linkedin_connections :: "related_row list"
  twitter_profiles :: "related_row list"
  tweets :: "related_row list"
  twitter_followers :: "related_row list"
  twitter_hashtags :: "related_row list"
  next_pk :: nat

text \<open>\<open>SocialMediaAccount.is_token_expired\<close> and \<open>SessionData.is_expired\<close>, at the time \<open>now\<close>.\<close>

definition is_token_expired :: "timestamp \<Rightarrow> SocialMediaAccount \<Rightarrow> bool" where
  "is_token_expired now self =
     (case token_expires_at self of
        None \<Rightarrow> False
      | Some t \<Rightarrow> now > t)"

definition is_expired :: "timestamp \<Rightarrow> SessionData \<Rightarrow> bool" where
  "is_expired now self = (now > expires_at self)"

subsection \<open>The object-relational mapper\<close>

text \<open>\<open>objects.get\<close>: the one matching row, or one of two exceptions.\<close>

definition objects_get :: "('r \<Rightarrow> bool) \<Rightarrow> 'r list \<Rightarrow> py_error + 'r" where
  "objects_get p rows =
     (case filter p rows of
        [] \<Rightarrow> Inl (Raised DoesNotExist ''matching query does not exist'')
      | [r] \<Rightarrow> Inr r
      | _ \<Rightarrow> Inl (Raised MultipleObjectsReturned ''get() returned more than one row''))"

text \<open>\<open>objects.filter(...).delete()\<close>: the matching rows go.\<close>

definition filter_delete :: "('r \<Rightarrow> bool) \<Rightarrow> 'r list \<Rightarrow> 'r list" where
  "filter_delete p rows = filter (\<lambda>r. \<not> p r) rows"

definition of_account :: "nat \<Rightarrow> related_row \<Rightarrow> bool" where
  "of_account a r = (related_social_account r = a)"

text \<open>\<open>session.delete()\<close>: no model points to a session.\<close>

definition delete_session :: "SessionData \<Rightarrow> database \<Rightarrow> database" where
  "delete_session s db =
     db\<lparr>session_rows := filter_delete (\<lambda>r. session_pk r = session_pk s) (session_rows db)\<rparr>"

text \<open>\<open>social_account.delete()\<close>: the row goes, and with it every row of a model whose
  foreign key to the account cascades.\<close>

definition delete_account :: "SocialMediaAccount \<Rightarrow> database \<Rightarrow> database" where
  "delete_account a db =
     db\<lparr>social_accounts := filter_delete (\<lambda>r. pk r = pk a) (social_accounts db),
        api_call_logs := filter_delete (\<lambda>r. log_social_account r = pk a) (api_call_logs db),
        user_analytics := filter_delete (of_account (pk a)) (user_analytics db),
        session_rows :=
          filter_delete (\<lambda>r. session_social_account r = Some (pk a)) (session_rows db),
        linkedin_profiles := filter_delete (of_account (pk a)) (linkedin_profiles db),
        linkedin_posts := filter_delete (of_account (pk a)) (linkedin_posts db),
        linkedin_connections := filter_delete (of_account (pk a)) (linkedin_connections db),
        twitter_profiles := filter_delete (of_account (pk a)) (twitter_profiles db),
        tweets := filter_delete (of_account (pk a)) (tweets db),
        twitter_followers := filter_delete (of_account (pk a)) (twitter_followers db),
        twitter_hashtags := filter_delete (of_account (pk a)) (twitter_hashtags db)\<rparr>"

text \<open>\<open>social_account.save()\<close>: when a row has the object's key, the row is replaced
  by the object, whose \<open>updated_at\<close> is \<open>auto_now\<close>; when no row has it, the object is
  inserted, and \<open>created_at\<close>, which is \<open>auto_now_add\<close>, is set as well.\<close>

definition save_account ::
  "timestamp \<Rightarrow> SocialMediaAccount \<Rightarrow> database \<Rightarrow> SocialMediaAccount \<times> database" where
  "save_account now a db =
     (if list_ex (\<lambda>r. pk r = pk a) (social_accounts db) then
        (let a' = a\<lparr>updated_at := now\<rparr> in
         (a', db\<lparr>social_accounts :=
                   map (\<lambda>r. if pk r = pk a then a' else r) (social_accounts db)\<rparr>))
      else
        (let a' = a\<lparr>created_at := now, updated_at := now\<rparr> in
         (a', db\<lparr>social_accounts := social_accounts db @ [a']\<rparr>)))"

section \<open>The surroundings of the code\<close>

text \<open>\<open>django.conf.settings\<close>, as far as the code reads it.\<close>

record settings =
  SECRET_KEY :: string
  LINKEDIN_CLIENT_ID :: string
  LINKEDIN_CLIENT_SECRET :: string
  LINKEDIN_REDIRECT_URI :: string
  TWITTER_CLIENT_ID :: string
  TWITTER_CLIENT_SECRET :: string
  TWITTER_REDIRECT_URI :: string

datatype json =
    JNull | JBool bool | JNum int | JStr string | JArr "json list" | JObj "(string \<times> json) list"

text \<open>A call of \<open>requests\<close>: what is sent, and what comes back, a response or an exception.
  The headers of a response are given by their lookup; \<open>resp_json\<close> is what \<open>response.json()\<close>
  returns or raises.\<close>

record http_request =
  req_method :: string
  req_url :: string
  req_params :: "dict option"
  req_data :: "dict option"
  req_json :: "json option"
  req_headers :: "dict option"

record http_response =
  resp_status_code :: int
  resp_headers :: dict
  resp_text :: string
  resp_json :: "py_error + json"

datatype http_result = Failed py_error | Response http_response

text \<open>The library functions whose results the code depends on: the random sources of
  \<open>secrets\<close>, \<open>hashlib.sha256(...).digest()\<close>, \<open>int\<close> on a \<open>str\<close> and
  \<open>datetime.fromtimestamp\<close>.\<close>

record library =
  token_bytes :: "nat \<Rightarrow> byte list"
  token_urlsafe :: "nat \<Rightarrow> string"
  sha256 :: "byte list \<Rightarrow> byte list"
  py_int :: "string \<Rightarrow> py_error + int"
  fromtimestamp :: "int \<Rightarrow> py_error + timestamp"

section \<open>accounts/utils.py: SessionManager\<close>

text \<open>\<open>create_oauth_session\<close>; thirty minutes are 1800000000 microseconds, and the
  clock is more than thirty minutes before the end of the year 9999.\<close>

definition create_oauth_session ::
  "library \<Rightarrow> timestamp \<Rightarrow> nat \<Rightarrow> string \<Rightarrow> string \<Rightarrow> string option \<Rightarrow> string option
   \<Rightarrow> database \<Rightarrow> SessionData \<times> database" where
  "create_oauth_session lib now usr plat redirect state verifier db =
     (let state' = str_or state (token_urlsafe lib 32);
          expires = now + 1800000000;
          session_data =
            \<lparr>session_pk = next_pk db, session_user = usr, session_social_account = None,
             oauth_state = state',
             code_verifier = str_or verifier [],
             redirect_uri = redirect, temp_data = [''platform'' \<mapsto> plat],
             ip_address = None, user_agent = [], expires_at = expires,
             session_created_at = now\<rparr>
      in (session_data,
          db\<lparr>session_rows := session_rows db @ [session_data], next_pk := next_pk db + 1\<rparr>))"

text \<open>\<open>get_oauth_session\<close>: only \<open>DoesNotExist\<close> is caught.\<close>

definition get_oauth_session ::
  "string \<Rightarrow> timestamp \<Rightarrow> database \<Rightarrow> py_error + (SessionData option \<times> database)" where
  "get_oauth_session state now db =
     (case objects_get (\<lambda>r. oauth_state r = state) (session_rows db) of
        Inr session \<Rightarrow>
          if is_expired now session then Inr (None, delete_session session db)
          else Inr (Some session, db)
      | Inl e \<Rightarrow> if exc_class e = DoesNotExist then Inr (None, db) else Inl e)"

definition cleanup_expired_sessions :: "timestamp \<Rightarrow> database \<Rightarrow> database" where
  "cleanup_expired_sessions now db =
     db\<lparr>session_rows := filter_delete (\<lambda>r. expires_at r < now) (session_rows db)\<rparr>"

definition cleanup_user_platform_sessions :: "nat \<Rightarrow> string \<Rightarrow> database \<Rightarrow> database" where
  "cleanup_user_platform_sessions usr plat db =
     db\<lparr>session_rows :=
          filter_delete (\<lambda>r. session_user r = usr \<and> temp_data r ''platform'' = Some plat)
            (session_rows db)\<rparr>"

section \<open>accounts/utils.py: TokenManager\<close>

text \<open>
  The first lines of \<open>store_tokens\<close>: \<open>expires_at\<close> stays \<open>None\<close> when \<open>expires_in\<close> is
  \<open>None\<close> or 0, and is \<open>timezone.now() + timedelta(seconds=int(expires_in))\<close> otherwise,
  which may raise.
\<close>

definition compute_expires_at :: "timestamp \<Rightarrow> int option \<Rightarrow> py_error + timestamp option" where
  "compute_expires_at now expires_in =
     (case expires_in of
        None \<Rightarrow> Inr None
      | Some n \<Rightarrow>
          if n = 0 then Inr None
          else (case timedelta_seconds n of
                  Inl e \<Rightarrow> Inl e
                | Inr d \<Rightarrow> map_sum id Some (datetime_add now d)))"

text \<open>
  \<open>store_tokens\<close>. \<open>user_data\<close> is a dict of strings or \<open>None\<close>; the empty dict has no
  \<open>'id'\<close>, so the first test of the guard is the test for \<open>None\<close>. \<open>user_data.get(k, d)\<close> is
  \<open>d\<close> only when the key \<open>k\<close> is absent.
\<close>

definition store_tokens ::
  "settings \<Rightarrow> timestamp \<Rightarrow> nat \<Rightarrow> string \<Rightarrow> string \<Rightarrow> string option \<Rightarrow> int option
   \<Rightarrow> string option \<Rightarrow> dict option \<Rightarrow> database
   \<Rightarrow> py_error + (SocialMediaAccount \<times> database)" where
  "store_tokens st now usr plat access_tok refresh_tok expires_in scp user_data db =
     (case compute_expires_at now expires_in of
        Inl e \<Rightarrow> Inl e
      | Inr expires \<Rightarrow>
      case user_data of
        None \<Rightarrow>
          Inl (Raised ValueError (''Missing user_data or platform user ID for '' @ plat))
      | Some ud \<Rightarrow>
          if \<not> truthy (ud ''id'')
          then Inl (Raised ValueError (''Missing user_data or platform user ID for '' @ plat))
          else
            let uid = str_or (ud ''id'') [];
                encrypted_access = encrypt_token (SECRET_KEY st) access_tok;
                encrypted_refresh =
                  (if truthy refresh_tok then encrypt_token (SECRET_KEY st) (str_or refresh_tok [])
                   else Inr [])
            in
            case objects_get
                   (\<lambda>a. user a = usr \<and> platform a = plat \<and> platform_user_id a = uid)
                   (social_accounts db) of
              Inr social_account \<Rightarrow>
                (case encrypted_access of
                   Inl e \<Rightarrow> Inl e
                 | Inr ea \<Rightarrow>
                     (case encrypted_refresh of
                        Inl e \<Rightarrow> Inl e
                      | Inr er \<Rightarrow>
                          Inr (save_account now
                                 (social_account
                                    \<lparr>username := dict_get ud ''username'' (username social_account),
                                     display_name := dict_get ud ''name'' (display_name social_account),
                                     email := dict_get ud ''email'' (email social_account),
                                     profile_url :=
                                       dict_get ud ''profile_url'' (profile_url social_account),
                                     avatar_url :=
                                       dict_get ud ''avatar_url'' (avatar_url social_account),
                                     access_token := ea,
                                     refresh_token := Some er,
                                     token_expires_at := expires,
                                     scope := str_or scp [],
                                     status := ''active'',
                                     last_sync := Some now,
                                     extra_data := extra_data social_account ++ ud\<rparr>)
                                 db)))
            | Inl e \<Rightarrow>
                if exc_class e \<noteq> DoesNotExist then Inl e
                else
                  (case encrypted_access of
                     Inl e \<Rightarrow> Inl e
                   | Inr ea \<Rightarrow>
                       (case encrypted_refresh of
                          Inl e \<Rightarrow> Inl e
                        | Inr er \<Rightarrow>
                            let social_account =
                                  \<lparr>pk = next_pk db, user = usr, platform = plat,
                                   platform_user_id = uid,
                                   username = dict_get ud ''username'' [],
                                   display_name = dict_get ud ''name'' [],
                                   email = dict_get ud ''email'' [],
                                   profile_url = dict_get ud ''profile_url'' [],
                                   avatar_url = dict_get ud ''avatar_url'' [],
                                   access_token = ea,
                                   refresh_token = Some er,
                                   token_expires_at = expires,
                                   scope = str_or scp [],
                                   status = ''active'',
                                   last_sync = None,
                                   follower_count = 0, following_count = 0, posts_count = 0,
                                   extra_data = ud,
                                   created_at = now, updated_at = now\<rparr>
                            in Inr (social_account,
                                    db\<lparr>social_accounts := social_accounts db @ [social_account],
                                       next_pk := next_pk db + 1\<rparr>))))"

text \<open>
  \<open>_revoke_platform_token\<close>: first the body of its \<open>try\<close>, with the line it prints as the
  result, then the function, whose \<open>except Exception\<close> turns every exception into a
  printed line.
\<close>

datatype revocation =
    NoAccessToken | Revoked | NotRevoked int | NoRevocation | RevocationError py_error

definition revoke_platform_token_try ::
  "settings \<Rightarrow> (http_request \<Rightarrow> http_result) \<Rightarrow> SocialMediaAccount \<Rightarrow> string
   \<Rightarrow> py_error + revocation" where
  "revoke_platform_token_try st http social_account plat =
     (let token = decrypt_token (SECRET_KEY st) (access_token social_account) in
      if token = [] then Inr NoAccessToken
      else if plat = ''linkedin'' then
        (case http \<lparr>req_method = ''POST'',
                    req_url = ''https://www.linkedin.com/oauth/v2/revoke'',
                    req_params = None,
                    req_data = Some [''token'' \<mapsto> token,
                                     ''client_id'' \<mapsto> LINKEDIN_CLIENT_ID st,
                                     ''client_secret'' \<mapsto> LINKEDIN_CLIENT_SECRET st],
                    req_json = None, req_headers = None\<rparr> of
           Failed e \<Rightarrow> Inl e
         | Response response \<Rightarrow>
             if resp_status_code response = 200 then Inr Revoked
             else Inr (NotRevoked (resp_status_code response)))
      else if plat = ''twitter'' then
        (let credentials = TWITTER_CLIENT_ID st @ '':'' @ TWITTER_CLIENT_SECRET st;
             encoded_credentials = b64encode (str_encode credentials)
         in case http \<lparr>req_method = ''POST'',
                       req_url = ''https://api.twitter.com/2/oauth2/revoke'',
                       req_params = None,
                       req_data = Some [''token'' \<mapsto> token,
                                        ''client_id'' \<mapsto> TWITTER_CLIENT_ID st],
                       req_json = None,
                       req_headers =
                         Some [''Authorization'' \<mapsto> ''Basic '' @ encoded_credentials,
                               ''Content-Type'' \<mapsto> ''application/x-www-form-urlencoded'']\<rparr> of
              Failed e \<Rightarrow> Inl e
            | Response response \<Rightarrow>
                if resp_status_code response = 200 then Inr Revoked
                else Inr (NotRevoked (resp_status_code response)))
      else Inr NoRevocation)"

definition revoke_platform_token ::
  "settings \<Rightarrow> (http_request \<Rightarrow> http_result) \<Rightarrow> SocialMediaAccount \<Rightarrow> string
   \<Rightarrow> py_error + revocation" where
  "revoke_platform_token st http social_account plat =
     (case revoke_platform_token_try st http social_account plat of
        Inl e \<Rightarrow> Inr (RevocationError e)
      | Inr r \<Rightarrow> Inr r)"

text \<open>
  \<open>disconnect_account\<close>: the body of its \<open>try\<close>, where an exception of the revocation
  would leave the body, then the function with its two \<open>except\<close> clauses, both of which
  return \<open>False\<close>. The modules linkedIn.models and twitter.models are there, so their
  imports succeed.
\<close>

definition disconnect_account_try ::
  "settings \<Rightarrow> (http_request \<Rightarrow> http_result) \<Rightarrow> nat \<Rightarrow> string \<Rightarrow> database
   \<Rightarrow> py_error + database" where
  "disconnect_account_try st http usr plat db =
     (case objects_get (\<lambda>a. user a = usr \<and> platform a = plat) (social_accounts db) of
        Inl e \<Rightarrow> Inl e
      | Inr social_account \<Rightarrow>
          (case revoke_platform_token st http social_account plat of
             Inl e \<Rightarrow> Inl e
           | Inr printed \<Rightarrow>
               let a = pk social_account;
                   db1 = db\<lparr>api_call_logs :=
                              filter_delete (\<lambda>r. log_social_account r = a) (api_call_logs db)\<rparr>;
                   db2 = db1\<lparr>user_analytics :=
                                filter_delete (of_account a) (user_analytics db1)\<rparr>;
                   db3 = db2\<lparr>session_rows :=
                                filter_delete (\<lambda>r. session_social_account r = Some a)
                                  (session_rows db2)\<rparr>;
                   db4 = cleanup_user_platform_sessions usr plat db3;
                   db5 =
                     (if plat = ''linkedin'' then
                        db4\<lparr>linkedin_profiles :=
                               filter_delete (of_account a) (linkedin_profiles db4)\<rparr>
                      else if plat = ''twitter'' then
                        db4\<lparr>twitter_profiles :=
                               filter_delete (of_account a) (twitter_profiles db4),
                             tweets := filter_delete (of_account a) (tweets db4),
                             twitter_followers :=
                               filter_delete (of_account a) (twitter_followers db4),
                             twitter_hashtags :=
                               filter_delete (of_account a) (twitter_hashtags db4)\<rparr>
                      else db4)
               in Inr (delete_account social_account db5)))"

definition disconnect_account ::
  "settings \<Rightarrow> (http_request \<Rightarrow> http_result) \<Rightarrow> nat \<Rightarrow> string \<Rightarrow> database
   \<Rightarrow> bool \<times> database" where
  "disconnect_account st http usr plat db =
     (case disconnect_account_try st http usr plat db of
        Inr db' \<Rightarrow> (True, db')
      | Inl e \<Rightarrow> if exc_class e = DoesNotExist then (False, db) else (False, db))"

definition get_user_social_account ::
  "nat \<Rightarrow> string \<Rightarrow> database \<Rightarrow> py_error + SocialMediaAccount option" where
  "get_user_social_account usr plat db =
     (case objects_get (\<lambda>a. user a = usr \<and> platform a = plat \<and> status a = ''active'')
             (social_accounts db) of
        Inr a \<Rightarrow> Inr (Some a)
      | Inl e \<Rightarrow> if exc_class e = DoesNotExist then Inr None else Inl e)"

definition refresh_access_token :: "SocialMediaAccount \<Rightarrow> string option" where
  "refresh_access_token social_account = None"

text \<open>\<open>get_valid_token\<close>: the token or \<open>None\<close>, the account object and the stored rows.\<close>

definition get_valid_token ::
  "settings \<Rightarrow> timestamp \<Rightarrow> SocialMediaAccount \<Rightarrow> database
   \<Rightarrow> string option \<times> SocialMediaAccount \<times> database" where
  "get_valid_token st now social_account db =
     (if is_token_expired now social_account then
        (if truthy (refresh_token social_account)
            \<and> truthy (refresh_access_token social_account)
         then (Some (decrypt_token (SECRET_KEY st) (access_token social_account)),
               social_account, db)
         else
           (let (saved, db') = save_account now (social_account\<lparr>status := ''expired''\<rparr>) db
            in (None, saved, db')))
      else (Some (decrypt_token (SECRET_KEY st) (access_token social_account)),
            social_account, db))"

section \<open>accounts/utils.py: APIClient\<close>

definition get_base_url :: "SocialMediaAccount \<Rightarrow> string" where
  "get_base_url social_account =
     (case [''linkedin'' \<mapsto> ''https://api.linkedin.com/v2'',
            ''twitter'' \<mapsto> ''https://api.twitter.com/2'',
            ''facebook'' \<mapsto> ''https://graph.facebook.com/v18.0''] (platform social_account) of
        Some u \<Rightarrow> u
      | None \<Rightarrow> [])"

text \<open>
  \<open>_log_api_call\<close>: \<open>int(...)\<close> and \<open>datetime.fromtimestamp\<close> may raise; otherwise one row
  is created. \<open>response_time\<close> is the measured latency (in microseconds here).
\<close>

definition log_api_call ::
  "library \<Rightarrow> timestamp \<Rightarrow> SocialMediaAccount \<Rightarrow> string \<Rightarrow> string \<Rightarrow> int \<Rightarrow> int \<Rightarrow> dict
   \<Rightarrow> string \<Rightarrow> database \<Rightarrow> py_error + database" where
  "log_api_call lib now social_account endp meth status_c resp_time headers err db =
     (let remaining =
            (if platform social_account = ''linkedin'' then headers ''X-Restli-Protocol-Version''
             else if platform social_account = ''twitter'' then headers ''x-rate-limit-remaining''
             else None);
          reset =
            (if platform social_account \<noteq> ''linkedin'' \<and> platform social_account = ''twitter''
                \<and> truthy (headers ''x-rate-limit-reset'')
             then (case py_int lib (str_or (headers ''x-rate-limit-reset'') []) of
                     Inl e \<Rightarrow> Inl e
                   | Inr n \<Rightarrow> map_sum id Some (fromtimestamp lib n))
             else Inr None)
      in case reset of
           Inl e \<Rightarrow> Inl e
         | Inr rate_reset \<Rightarrow>
             (case (if truthy remaining then map_sum id Some (py_int lib (str_or remaining []))
                    else Inr None) of
                Inl e \<Rightarrow> Inl e
              | Inr rate_remaining \<Rightarrow>
                  Inr (db\<lparr>api_call_logs :=
                            api_call_logs db @
                              [\<lparr>log_pk = next_pk db, log_user = user social_account,
                                log_social_account = pk social_account,
                                endpoint = endp, log_method = str_upper meth,
                                status_code = status_c, response_time = resp_time,
                                rate_limit_remaining = rate_remaining,
                                rate_limit_reset = rate_reset,
                                error_message = err, log_created_at = now\<rparr>],
                          next_pk := next_pk db + 1\<rparr>)))"

text \<open>
  \<open>make_request\<close>. The body of the \<open>try\<close> returns the rows as they are when it ends, also
  when it ends by an exception: rows written before the exception stay. \<open>None\<close> is the
  Python \<open>None\<close>, which is also what \<open>response.json()\<close> gives for the JSON \<open>null\<close>.
\<close>

definition make_request_try ::
  "library \<Rightarrow> (http_request \<Rightarrow> http_result) \<Rightarrow> timestamp \<Rightarrow> int \<Rightarrow> SocialMediaAccount
   \<Rightarrow> string \<Rightarrow> string \<Rightarrow> string \<Rightarrow> dict option \<Rightarrow> json option \<Rightarrow> dict
   \<Rightarrow> database \<Rightarrow> (py_error \<times> database) + (json option \<times> database)" where
  "make_request_try lib http now resp_time social_account url endp meth params data headers db =
     (let sent =
            (if str_upper meth = ''GET'' then
               Inr (http \<lparr>req_method = ''GET'', req_url = url, req_params = params,
                          req_data = None, req_json = None, req_headers = Some headers\<rparr>)
             else if str_upper meth = ''POST'' then
               Inr (http \<lparr>req_method = ''POST'', req_url = url, req_params = params,
                          req_data = None, req_json = data, req_headers = Some headers\<rparr>)
             else if str_upper meth = ''PUT'' then
               Inr (http \<lparr>req_method = ''PUT'', req_url = url, req_params = params,
                          req_data = None, req_json = data, req_headers = Some headers\<rparr>)
             else if str_upper meth = ''DELETE'' then
               Inr (http \<lparr>req_method = ''DELETE'', req_url = url, req_params = params,
                          req_data = None, req_json = None, req_headers = Some headers\<rparr>)
             else Inl (Raised ValueError (''Unsupported HTTP method: '' @ meth)))
      in case sent of
           Inl e \<Rightarrow> Inl (e, db)
         | Inr (Failed e) \<Rightarrow> Inl (e, db)
         | Inr (Response response) \<Rightarrow>
             (case log_api_call lib now social_account endp meth (resp_status_code response)
                     resp_time (resp_headers response) [] db of
                Inl e \<Rightarrow> Inl (e, db)
              | Inr db1 \<Rightarrow>
                  if resp_status_code response = 200 then
                    (case resp_json response of
                       Inl e \<Rightarrow> Inl (e, db1)
                     | Inr payload \<Rightarrow> Inr (if payload = JNull then None else Some payload, db1))
                  else
                    (case log_api_call lib now social_account endp meth
                            (resp_status_code response) resp_time (resp_headers response)
                            (resp_text response) db1 of
                       Inl e \<Rightarrow> Inl (e, db1)
                     | Inr db2 \<Rightarrow> Inr (None, db2))))"

definition make_request ::
  "library \<Rightarrow> settings \<Rightarrow> (http_request \<Rightarrow> http_result) \<Rightarrow> timestamp \<Rightarrow> int
   \<Rightarrow> SocialMediaAccount \<Rightarrow> string \<Rightarrow> string \<Rightarrow> dict option \<Rightarrow> json option \<Rightarrow> dict option
   \<Rightarrow> database \<Rightarrow> py_error + (json option \<times> SocialMediaAccount \<times> database)" where
  "make_request lib st http now resp_time self_account endp meth params data headers db =
     (case get_valid_token st now self_account db of
        (access_tok, social_account, db0) \<Rightarrow>
          if \<not> truthy access_tok then Inr (None, social_account, db0)
          else
            let token = str_or access_tok [];
                headers0 = (case headers of None \<Rightarrow> Map.empty | Some h \<Rightarrow> h);
                headers1 =
                  (if platform social_account = ''linkedin''
                   then headers0(''Authorization'' \<mapsto> ''Bearer '' @ token)
                   else if platform social_account = ''twitter''
                   then headers0(''Authorization'' \<mapsto> ''Bearer '' @ token)
                   else headers0);
                params1 =
                  (if platform social_account \<noteq> ''linkedin''
                      \<and> platform social_account \<noteq> ''twitter''
                      \<and> platform social_account = ''facebook''
                   then Some ((case params of None \<Rightarrow> Map.empty | Some p \<Rightarrow> p)
                                (''access_token'' \<mapsto> token))
                   else params);
                url = get_base_url social_account @ ''/'' @ lstrip CHR ''/'' endp
            in case make_request_try lib http now resp_time social_account url endp meth
                      params1 data headers1 db0 of
                 Inr (payload, db1) \<Rightarrow> Inr (payload, social_account, db1)
               | Inl (e, db1) \<Rightarrow>
                   (case log_api_call lib now social_account endp meth 0 resp_time Map.empty
                           (str_exc e) db1 of
                      Inl e' \<Rightarrow> Inl e'
                    | Inr db2 \<Rightarrow> Inr (None, social_account, db2)))"

section \<open>The callbacks of linkedIn/views.py and twitter/views.py\<close>

text \<open>
  A callback request is the logged-in user and the three query parameters. Every outcome
  is a redirect to the dashboard with one message. The part of a callback from its
  \<open>try\<close> on (the code exchange with the platform, \<open>store_tokens\<close>, the profile row, the
  deletion of the used session) is the parameter \<open>exchange\<close>.
\<close>

record callback_request =
  request_user :: nat
  get_code :: "string option"
  get_error :: "string option"
  get_state :: "string option"

datatype message = Error string | Success string | Warning string

definition linkedin_callback ::
  "(string \<Rightarrow> SessionData \<Rightarrow> database \<Rightarrow> message \<times> database) \<Rightarrow> timestamp
   \<Rightarrow> callback_request \<Rightarrow> database \<Rightarrow> py_error + (message \<times> database)" where
  "linkedin_callback exchange now request db =
     (if truthy (get_error request) then
        Inr (Error (''LinkedIn authorization failed: '' @ str_or (get_error request) []), db)
      else if \<not> truthy (get_code request) \<or> \<not> truthy (get_state request) then
        Inr (Error ''Invalid LinkedIn callback'', db)
      else
        case get_oauth_session (str_or (get_state request) []) now db of
          Inl e \<Rightarrow> Inl e
        | Inr (None, db1) \<Rightarrow> Inr (Error ''Invalid or expired session state'', db1)
        | Inr (Some session_data, db1) \<Rightarrow>
            if session_user session_data \<noteq> request_user request then
              Inr (Error ''Session does not belong to current user'',
                   delete_session session_data db1)
            else Inr (exchange (str_or (get_code request) []) session_data db1))"

definition twitter_callback ::
  "(string \<Rightarrow> SessionData \<Rightarrow> database \<Rightarrow> message \<times> database) \<Rightarrow> timestamp
   \<Rightarrow> callback_request \<Rightarrow> database \<Rightarrow> py_error + (message \<times> database)" where
  "twitter_callback exchange now request db =
     (if truthy (get_error request) then
        Inr (Error (''Twitter authorization failed: '' @ str_or (get_error request) []), db)
      else if \<not> truthy (get_code request) \<or> \<not> truthy (get_state request) then
        Inr (Error ''Invalid Twitter callback'', db)
      else
        case get_oauth_session (str_or (get_state request) []) now db of
          Inl e \<Rightarrow> Inl e
        | Inr (None, db1) \<Rightarrow> Inr (Error ''Invalid session state'', db1)
        | Inr (Some session_data, db1) \<Rightarrow>
            if session_user session_data \<noteq> request_user request then
              Inr (Error ''Invalid session state'', db1)
            else Inr (exchange (str_or (get_code request) []) session_data db1))"

text \<open>The call of \<open>store_tokens\<close> in \<open>linkedin_callback\<close>: no \<open>refresh_token\<close> is passed,
  so the parameter has its default \<open>None\<close>.\<close>

definition linkedin_store_tokens ::
  "settings \<Rightarrow> timestamp \<Rightarrow> nat \<Rightarrow> string \<Rightarrow> int option \<Rightarrow> string \<Rightarrow> dict \<Rightarrow> database
   \<Rightarrow> py_error + (SocialMediaAccount \<times> database)" where
  "linkedin_store_tokens st now usr access_tok expires_in scp user_data db =
     store_tokens st now usr ''linkedin'' access_tok None expires_in (Some scp)
       (Some user_data) db"

section \<open>twitter/views.py: twitter\_login\<close>

text \<open>\<open>urllib.parse.urlencode\<close> of a dict of strings: \<open>quote_plus\<close> keeps the letters, the
  digits and \<open>_.-~\<close>, writes a space as \<open>+\<close> and every other byte as \<open>%XX\<close>.\<close>

definition always_safe :: string where
  "always_safe = ''ABCDEFGHIJKLMNOPQRSTUVWXYZabcdefghijklmnopqrstuvwxyz0123456789_.-~''"

definition hex_digit :: "nat \<Rightarrow> char" where
  "hex_digit n = ''0123456789ABCDEF'' ! n"

definition quote_plus :: "string \<Rightarrow> string" where
  "quote_plus s =
     concat (map (\<lambda>c. if c \<in> set always_safe then [c]
                      else if c = CHR '' '' then ''+''
                      else [CHR ''%'', hex_digit (of_char c div 16), hex_digit (of_char c mod 16)])
               s)"

fun join_amp :: "string list \<Rightarrow> string" where
  "join_amp [] = []"
| "join_amp [x] = x"
| "join_amp (x # y # ys) = x @ ''&'' @ join_amp (y # ys)"

definition urlencode :: "(string \<times> string) list \<Rightarrow> string" where
  "urlencode query = join_amp (map (\<lambda>(k, v). quote_plus k @ ''='' @ quote_plus v) query)"

text \<open>\<open>int(timezone.now().timestamp())\<close>: whole seconds, rounded towards zero.\<close>

definition unix_seconds :: "timestamp \<Rightarrow> int" where
  "unix_seconds now = (if now < 0 then - ((- now) div 1000000) else now div 1000000)"

text \<open>The two PKCE lines of \<open>twitter_login\<close>: the verifier and the challenge.\<close>

definition pkce_code_verifier :: "library \<Rightarrow> string" where
  "pkce_code_verifier lib = rstrip CHR ''='' (urlsafe_b64encode (token_bytes lib 32))"

definition pkce_code_challenge :: "library \<Rightarrow> string \<Rightarrow> string" where
  "pkce_code_challenge lib verifier =
     rstrip CHR ''='' (urlsafe_b64encode (sha256 lib (str_encode verifier)))"

record redirect =
  location :: string
  response_headers :: "(string \<times> string) list"

definition twitter_login ::
  "library \<Rightarrow> settings \<Rightarrow> timestamp \<Rightarrow> nat \<Rightarrow> database \<Rightarrow> redirect \<times> database" where
  "twitter_login lib st now usr db =
     (let db1 = db\<lparr>session_rows :=
                     filter_delete
                       (\<lambda>r. session_user r = usr \<and> temp_data r ''platform'' = Some ''twitter'')
                       (session_rows db)\<rparr>;
          verifier = pkce_code_verifier lib;
          code_challenge = pkce_code_challenge lib verifier;
          state = token_urlsafe lib 32;
          timestamp = str_of_int (unix_seconds now);
          (session_data, db2) =
            create_oauth_session lib now usr ''twitter'' (TWITTER_REDIRECT_URI st)
              (Some state) (Some verifier) db1;
          auth_params =
            [(''response_type'', ''code''),
             (''client_id'', TWITTER_CLIENT_ID st),
             (''redirect_uri'', TWITTER_REDIRECT_URI st),
             (''scope'', ''tweet.read users.read follows.read offline.access''),
             (''state'', state),
             (''code_challenge'', code_challenge),
             (''code_challenge_method'', ''S256''),
             (''force_login'', ''true''),
             (''_t'', timestamp)];
          auth_url = ''https://twitter.com/i/oauth2/authorize?'' @ urlencode auth_params
      in (\<lparr>location = auth_url,
           response_headers =
             [(''Cache-Control'', ''no-cache, no-store, must-revalidate''),
              (''Pragma'', ''no-cache''), (''Expires'', ''0'')]\<rparr>,
          db2))"

section \<open>What the specification calls base64url without padding\<close>

text \<open>
  The encoding of RFC 4648, section 5, with the padding left out, written down from the
  specification and not from the code: three bytes give four characters of the
  URL-safe alphabet, a last group of two bytes gives three and a last single byte two.
\<close>

definition b64url_alphabet :: string where
  "b64url_alphabet = ''ABCDEFGHIJKLMNOPQRSTUVWXYZabcdefghijklmnopqrstuvwxyz0123456789-_''"

definition b64url_char :: "nat \<Rightarrow> char" where
  "b64url_char n = b64url_alphabet ! n"

fun base64url_nopad :: "byte list \<Rightarrow> string" where
  "base64url_nopad [] = []"
| "base64url_nopad [a] = [b64url_char (unat a div 4), b64url_char (unat a mod 4 * 16)]"
| "base64url_nopad [a, b] =
     [b64url_char (unat a div 4), b64url_char (unat a mod 4 * 16 + unat b div 16),
      b64url_char (unat b mod 16 * 4)]"
| "base64url_nopad (a # b # c # rest) =
     b64url_char (unat a div 4) # b64url_char (unat a mod 4 * 16 + unat b div 16) #
     b64url_char (unat b mod 16 * 4 + unat c div 64) # b64url_char (unat c mod 64) #
     base64url_nopad rest"

section \<open>Sample rows\<close>

text \<open>Concrete rows and stores on which the functions are evaluated below.\<close>

definition empty_db :: database where
  "empty_db =
     \<lparr>social_accounts = [], api_call_logs = [], user_analytics = [], session_rows = [],
      linkedin_profiles = [], linkedin_posts = [], linkedin_connections = [],
      twitter_profiles = [], tweets = [], twitter_followers = [], twitter_hashtags = [],
      next_pk = 1\<rparr>"

definition sample_settings :: settings where
  "sample_settings =
     \<lparr>SECRET_KEY = ''django-insecure-key'',
      LINKEDIN_CLIENT_ID = ''li-id'', LINKEDIN_CLIENT_SECRET = ''li-secret'',
      LINKEDIN_REDIRECT_URI = ''https://connectly.example/linkedin/callback/'',
      TWITTER_CLIENT_ID = ''tw-id'', TWITTER_CLIENT_SECRET = ''tw-secret'',
      TWITTER_REDIRECT_URI = ''https://connectly.example/twitter/callback/''\<rparr>"

text \<open>A session of user 1 for Twitter that expires at time 2000.\<close>

definition sample_session :: SessionData where
  "sample_session =
     \<lparr>session_pk = 7, session_user = 1, session_social_account = None,
      oauth_state = ''st4te'', code_verifier = ''v3rifier'',
      redirect_uri = ''https://connectly.example/twitter/callback/'',
      temp_data = [''platform'' \<mapsto> ''twitter''], ip_address = None, user_agent = [],
      expires_at = 2000, session_created_at = 200\<rparr>"

text \<open>An account of user 1 on the given platform, for the given identity there, with a
  stored access token that is the encryption of \<open>tok\<close> under the sample key, no refresh
  token and a token expiry at time 2000.\<close>

definition sample_account :: "nat \<Rightarrow> string \<Rightarrow> string \<Rightarrow> SocialMediaAccount" where
  "sample_account k plat uid =
     \<lparr>pk = k, user = 1, platform = plat, platform_user_id = uid,
      username = ''ada'', display_name = ''Ada L'', email = ''ada@example.org'',
      profile_url = ''https://example.org/ada'', avatar_url = ''https://example.org/ada.png'',
      access_token = ''EAUK'', refresh_token = Some [], token_expires_at = Some 2000,
      scope = ''r'', status = ''active'', last_sync = None,
      follower_count = 0, following_count = 0, posts_count = 0,
      extra_data = [''id'' \<mapsto> uid], created_at = 100, updated_at = 100\<rparr>"

text \<open>User 1 with one LinkedIn account (its profile, a post and a connection, beside a
  post of another account), and with two: a second LinkedIn identity linked by the same
  user is a second row, since rows are unique per (user, platform, platform user id)
  only.\<close>

definition one_linkedin :: database where
  "one_linkedin =
     empty_db\<lparr>social_accounts := [sample_account 3 ''linkedin'' ''urn-a''],
               linkedin_profiles := [\<lparr>related_pk = 1, related_social_account = 3\<rparr>],
               linkedin_posts :=
                 [\<lparr>related_pk = 1, related_social_account = 3\<rparr>,
                  \<lparr>related_pk = 2, related_social_account = 9\<rparr>],
               linkedin_connections := [\<lparr>related_pk = 1, related_social_account = 3\<rparr>],
               next_pk := 5\<rparr>"

definition two_linkedin :: database where
  "two_linkedin =
     empty_db\<lparr>social_accounts :=
                 [sample_account 3 ''linkedin'' ''urn-a'', sample_account 4 ''linkedin'' ''urn-b''],
               linkedin_profiles := [\<lparr>related_pk = 1, related_social_account = 3\<rparr>],
               next_pk := 5\<rparr>"

text \<open>A platform that cannot be reached, and one that answers every request with the
  given status and text.\<close>

definition unreachable :: "http_request \<Rightarrow> http_result" where
  "unreachable request = Failed (Raised RequestException ''connection refused'')"

definition answers :: "int \<Rightarrow> string \<Rightarrow> http_request \<Rightarrow> http_result" where
  "answers code body request =
     Response \<lparr>resp_status_code = code, resp_headers = Map.empty, resp_text = body,
               resp_json = Inr (JObj [])\<rparr>"

text \<open>Stand-ins for the library functions.\<close>

definition sample_library :: library where
  "sample_library =
     \<lparr>token_bytes = (\<lambda>n. replicate n 7),
      token_urlsafe = (\<lambda>n. ''c3RhdGUtc3RhdGU''),
      sha256 = (\<lambda>bs. replicate 32 0),
      py_int = (\<lambda>s. Inl (Raised ValueError ''invalid literal for int() with base 10'')),
      fromtimestamp = (\<lambda>n. Inr (n * 1000000))\<rparr>"

text \<open>A callback of user 2 that carries the state of the sample session, which belongs to
  user 1, and a stand-in for the exchange, which succeeds and uses the session up.\<close>

definition foreign_callback :: callback_request where
  "foreign_callback =
     \<lparr>request_user = 2, get_code = Some ''c0de'', get_error = None,
      get_state = Some ''st4te''\<rparr>"

definition sample_exchange :: "string \<Rightarrow> SessionData \<Rightarrow> database \<Rightarrow> message \<times> database" where
  "sample_exchange c session_data db = (Success ''account connected'', delete_session session_data db)"

text \<open>What a platform reports about the identity \<open>urn-a\<close> on a later login: a new name,
  an empty e-mail address, and nothing under the other keys.\<close>

definition sample_user_data :: dict where
  "sample_user_data = [''id'' \<mapsto> ''urn-a'', ''name'' \<mapsto> ''Ada King'', ''email'' \<mapsto> []]"

section \<open>The token codec round-trips\<close>

lemma distinct_b64: "distinct b64_alphabet"
  by (simp add: b64_alphabet_def)

lemma len_b64: "length b64_alphabet = 64"
  by (simp add: b64_alphabet_def)

lemma index_of_nth: "distinct xs \<Longrightarrow> n < length xs \<Longrightarrow> index_of (xs ! n) xs = Some n"
proof (induction xs arbitrary: n)
  case Nil
  then show ?case by simp
next
  case (Cons y ys)
  show ?case
  proof (cases n)
    case 0
    then show ?thesis by simp
  next
    case (Suc m)
    with Cons.prems have "ys ! m \<noteq> y" "m < length ys" "distinct ys"
      by auto
    with Cons.IH[of m] Suc show ?thesis by simp
  qed
qed

lemma table_b64_char: "n < 64 \<Longrightarrow> table_a2b_base64 (b64_char n) = Some n"
  unfolding table_a2b_base64_def b64_char_def
  using index_of_nth[OF distinct_b64, of n] by (simp add: len_b64)

lemma b64_char_not_pad: "n < 64 \<Longrightarrow> b64_char n \<noteq> CHR ''=''"
proof -
  assume "n < 64"
  have "CHR ''='' \<notin> set b64_alphabet" by (simp add: b64_alphabet_def)
  moreover have "b64_char n \<in> set b64_alphabet"
    unfolding b64_char_def by (rule nth_mem) (simp add: len_b64 \<open>n < 64\<close>)
  ultimately show ?thesis by metis
qed

text \<open>One step of the decoder on a character of the alphabet.\<close>

lemma a2b_data:
  assumes "v < 64"
  shows "a2b_base64 quad_pos lc p (b64_char v # rest) =
           (if quad_pos = 0 then a2b_base64 1 v 0 rest
            else if quad_pos = 1 then
              map_option ((#) (byte_of_nat (lc * 4 + v div 16))) (a2b_base64 2 (v mod 16) 0 rest)
            else if quad_pos = 2 then
              map_option ((#) (byte_of_nat (lc * 16 + v div 4))) (a2b_base64 3 (v mod 4) 0 rest)
            else
              map_option ((#) (byte_of_nat (lc * 64 + v))) (a2b_base64 0 0 0 rest))"
  using assms by (simp add: table_b64_char b64_char_not_pad)

lemma a2b_quad:
  assumes "x1 < 64" "x2 < 64" "x3 < 64" "x4 < 64"
  shows "a2b_base64 0 lc p (b64_char x1 # b64_char x2 # b64_char x3 # b64_char x4 # rest) =
         map_option (\<lambda>r. byte_of_nat (x1 * 4 + x2 div 16) # byte_of_nat (x2 mod 16 * 16 + x3 div 4) #
                          byte_of_nat (x3 mod 4 * 64 + x4) # r) (a2b_base64 0 0 0 rest)"
  by (simp only: a2b_data[OF assms(1)] a2b_data[OF assms(2)] a2b_data[OF assms(3)]
        a2b_data[OF assms(4)])
     (simp add: option.map_comp comp_def)

lemma a2b_pad2:
  assumes "x1 < 64" "x2 < 64"
  shows "a2b_base64 0 lc p [b64_char x1, b64_char x2, CHR ''='', CHR ''=''] =
         Some [byte_of_nat (x1 * 4 + x2 div 16)]"
  by (simp only: a2b_data[OF assms(1)] a2b_data[OF assms(2)]) simp

lemma a2b_pad1:
  assumes "x1 < 64" "x2 < 64" "x3 < 64"
  shows "a2b_base64 0 lc p [b64_char x1, b64_char x2, b64_char x3, CHR ''=''] =
         Some [byte_of_nat (x1 * 4 + x2 div 16), byte_of_nat (x2 mod 16 * 16 + x3 div 4)]"
  by (simp only: a2b_data[OF assms(1)] a2b_data[OF assms(2)] a2b_data[OF assms(3)]) simp

lemma byte_lt: "unat (a :: byte) < 256"
  using unsigned_less[of a, where 'a=nat] by simp

lemma byte_of_nat_unat: "byte_of_nat (unat a) = a"
  by (simp add: byte_of_nat_def)

lemma unat_byte_of_nat: "n < 256 \<Longrightarrow> unat (byte_of_nat n) = n"
  by (simp add: byte_of_nat_def unat_of_nat)

text \<open>The arithmetic of cutting three bytes into four sextets and back.\<close>

lemma div_mul_add: "y < k \<Longrightarrow> (x * k + y) div k = (x::nat)"
  by simp

lemma mod_mul_add: "y < k \<Longrightarrow> (x * k + y) mod k = (y::nat)"
  by simp

lemma hi_nibble: "b < 256 \<Longrightarrow> b div 16 < (16::nat)"
  by (simp add: less_mult_imp_div_less)

lemma hi_pair: "c < 256 \<Longrightarrow> c div 64 < (4::nat)"
  by (simp add: less_mult_imp_div_less)

lemma hi_six: "a < 256 \<Longrightarrow> a div 4 < (64::nat)"
  by (simp add: less_mult_imp_div_less)

lemma sextet2: "b < 256 \<Longrightarrow> a mod 4 * 16 + b div 16 < (64::nat)"
proof -
  assume "b < 256"
  then have "b div 16 < 16" by (rule hi_nibble)
  moreover have "a mod 4 < 4" by simp
  then have "a mod 4 * 16 \<le> 48" by simp
  ultimately show ?thesis by linarith
qed

lemma sextet3: "c < 256 \<Longrightarrow> b mod 16 * 4 + c div 64 < (64::nat)"
proof -
  assume "c < 256"
  then have "c div 64 < 4" by (rule hi_pair)
  moreover have "b mod 16 < 16" by simp
  then have "b mod 16 * 4 \<le> 60" by simp
  ultimately show ?thesis by linarith
qed

lemma sextet2_last: "a mod 4 * 16 < (64::nat)"
  using sextet2[of 0 a] by simp

lemma sextet3_last: "b mod 16 * 4 < (64::nat)"
  using sextet3[of 0 b] by simp

lemma regroup1: "b < 256 \<Longrightarrow> a div 4 * 4 + (a mod 4 * 16 + b div 16) div 16 = (a::nat)"
  by (simp add: div_mul_add hi_nibble)

lemma regroup2:
  "b < 256 \<Longrightarrow> c < 256 \<Longrightarrow>
   (a mod 4 * 16 + b div 16) mod 16 * 16 + (b mod 16 * 4 + c div 64) div 4 = (b::nat)"
  by (simp add: div_mul_add mod_mul_add hi_nibble hi_pair)

lemma regroup3: "c < 256 \<Longrightarrow> (b mod 16 * 4 + c div 64) mod 4 * 64 + c mod 64 = (c::nat)"
  by (simp add: mod_mul_add hi_pair)

text \<open>Decoding undoes encoding, by induction along the groups of three bytes.\<close>

lemma a2b_b64encode: "a2b_base64 0 lc p (b64encode bs) = Some bs"
proof (induction bs arbitrary: lc p rule: b64encode.induct)
  case 1
  show ?case by simp
next
  case (2 a)
  have "a2b_base64 0 lc p (b64encode [a]) = Some [byte_of_nat (unat a div 4 * 4 + (unat a mod 4 * 16) div 16)]"
    unfolding b64encode.simps
    by (rule a2b_pad2[OF hi_six[OF byte_lt] sextet2_last])
  also have "unat a div 4 * 4 + (unat a mod 4 * 16) div 16 = unat a"
    using regroup1[of 0 "unat a"] by simp
  finally show ?case by (simp add: byte_of_nat_unat)
next
  case (3 a b)
  have "a2b_base64 0 lc p (b64encode [a, b]) =
        Some [byte_of_nat (unat a div 4 * 4 + (unat a mod 4 * 16 + unat b div 16) div 16),
              byte_of_nat ((unat a mod 4 * 16 + unat b div 16) mod 16 * 16 + (unat b mod 16 * 4) div 4)]"
    unfolding b64encode.simps
    by (rule a2b_pad1[OF hi_six[OF byte_lt] sextet2[OF byte_lt] sextet3_last])
  also have "unat a div 4 * 4 + (unat a mod 4 * 16 + unat b div 16) div 16 = unat a"
    by (rule regroup1[OF byte_lt])
  also have "(unat a mod 4 * 16 + unat b div 16) mod 16 * 16 + (unat b mod 16 * 4) div 4 = unat b"
    using regroup2[where b="unat b" and c=0 and a="unat a"] by (simp add: byte_lt)
  finally show ?case by (simp add: byte_of_nat_unat)
next
  case (4 a b c rest)
  have "a2b_base64 0 lc p (b64encode (a # b # c # rest)) =
        map_option (\<lambda>r. byte_of_nat (unat a div 4 * 4 + (unat a mod 4 * 16 + unat b div 16) div 16) #
                         byte_of_nat ((unat a mod 4 * 16 + unat b div 16) mod 16 * 16
                                       + (unat b mod 16 * 4 + unat c div 64) div 4) #
                         byte_of_nat ((unat b mod 16 * 4 + unat c div 64) mod 4 * 64 + unat c mod 64) # r)
          (a2b_base64 0 0 0 (b64encode rest))"
    unfolding b64encode.simps
    by (rule a2b_quad[OF hi_six[OF byte_lt] sextet2[OF byte_lt] sextet3[OF byte_lt]]) simp
  also have "unat a div 4 * 4 + (unat a mod 4 * 16 + unat b div 16) div 16 = unat a"
    by (rule regroup1[OF byte_lt])
  also have "(unat a mod 4 * 16 + unat b div 16) mod 16 * 16
              + (unat b mod 16 * 4 + unat c div 64) div 4 = unat b"
    by (rule regroup2[OF byte_lt byte_lt])
  also have "(unat b mod 16 * 4 + unat c div 64) mod 4 * 64 + unat c mod 64 = unat c"
    by (rule regroup3[OF byte_lt])
  finally show ?case by (simp add: byte_of_nat_unat "4.IH")
qed

lemma b64decode_b64encode: "b64decode (b64encode bs) = Inr bs"
  by (simp add: b64decode_def a2b_b64encode)

lemma b64encode_nonempty: "bs \<noteq> [] \<Longrightarrow> b64encode bs \<noteq> []"
  by (cases bs rule: b64encode.cases) simp_all

lemma xor_bytes_twice: "length xs \<le> length ks \<Longrightarrow> xor_bytes (xor_bytes xs ks) ks = xs"
proof (induction xs arbitrary: ks)
  case Nil
  then show ?case by (simp add: xor_bytes_def)
next
  case (Cons x xs)
  then obtain k ks' where ks: "ks = k # ks'" by (cases ks) auto
  with Cons.prems have "length xs \<le> length ks'" by simp
  from Cons.IH[OF this] ks show ?case by (simp add: xor_bytes_def xor.assoc)
qed

lemma length_xor_bytes: "length (xor_bytes xs ks) = min (length xs) (length ks)"
  by (simp add: xor_bytes_def)

lemma length_repeat_bytes: "length (repeat_bytes key n) = n * length key"
  by (induction n) (simp_all add: repeat_bytes_def)

lemma keystream_covers:
  assumes "key \<noteq> []"
  shows "n \<le> length (repeat_bytes key (n div length key + 1))"
proof -
  have "0 < length key" using assms by simp
  then have "n < (n div length key + 1) * length key"
    using dividend_less_div_times[of "length key" n] by (simp add: algebra_simps)
  then show ?thesis by (simp add: length_repeat_bytes)
qed

lemma bytes_decode_str_encode: "is_str s \<Longrightarrow> bytes_decode (str_encode s) = Inr s"
proof -
  assume v: "is_str s"
  have u: "unat (byte_of_nat (of_char c)) = of_char c" for c
    by (rule unat_byte_of_nat) simp
  then have "map unat (str_encode s) = map of_char s"
    by (simp add: str_encode_def comp_def)
  moreover have "map (\<lambda>b. char_of (unat b)) (str_encode s) = s"
    by (simp add: str_encode_def comp_def u)
  ultimately show ?thesis using v by (simp add: bytes_decode_def is_str_def)
qed

text \<open>What \<open>encrypt_token\<close> returns for a token that is not empty, under a key that is
  not empty, and that \<open>decrypt_token\<close> takes it back.\<close>

lemma encrypt_token_value:
  assumes "secret_key \<noteq> []" and "s \<noteq> []"
  shows "encrypt_token secret_key s =
           Inr (b64encode (xor_bytes (str_encode s)
                  (repeat_bytes (str_encode secret_key)
                     (length (str_encode s) div length (str_encode secret_key) + 1))))"
  using assms by (simp add: encrypt_token_def Let_def str_encode_def)

lemma decrypt_encrypted:
  assumes "secret_key \<noteq> []" and "s \<noteq> []" and "is_str s"
    and "encrypt_token secret_key s = Inr c"
  shows "decrypt_token secret_key c = s" and "c \<noteq> []"
proof -
  define key where "key = str_encode secret_key"
  define tb where "tb = str_encode s"
  define ks where "ks = repeat_bytes key (length tb div length key + 1)"
  define enc where "enc = xor_bytes tb ks"
  have key: "key \<noteq> []" using assms(1) by (simp add: key_def str_encode_def)
  have tb: "tb \<noteq> []" using assms(2) by (simp add: tb_def str_encode_def)
  have cover: "length tb \<le> length ks"
    unfolding ks_def by (rule keystream_covers[OF key])
  have len: "length enc = length tb"
    using cover by (simp add: enc_def length_xor_bytes)
  have "enc \<noteq> []" using len tb by auto
  then have ne: "b64encode enc \<noteq> []" by (rule b64encode_nonempty)
  have c: "c = b64encode enc"
    using assms(4) encrypt_token_value[OF assms(1,2)]
    by (simp add: enc_def ks_def tb_def key_def)
  have undo: "xor_bytes enc (repeat_bytes key (length enc div length key + 1)) = tb"
  proof -
    have "repeat_bytes key (length enc div length key + 1) = ks"
      by (simp add: len ks_def)
    then show ?thesis
      using xor_bytes_twice[OF cover] by (simp add: enc_def)
  qed
  have "decrypt_token_try secret_key (b64encode enc) = Inr s"
    using key undo bytes_decode_str_encode[OF assms(3)]
    by (simp add: decrypt_token_try_def Let_def key_def[symmetric] b64decode_b64encode
        tb_def)
  then show "decrypt_token secret_key c = s"
    using ne c by (simp add: decrypt_token_def)
  show "c \<noteq> []" using ne c by simp
qed

text \<open>
  Claim C1. Encrypting the empty string gives the empty string and so does decrypting
  it; for a secret key that is not empty (Django refuses an empty \<open>SECRET_KEY\<close>) and
  every string \<open>s\<close> that is not empty, \<open>encrypt_token\<close> returns a ciphertext and
  \<open>decrypt_token\<close> of that ciphertext, under the same key, is \<open>s\<close>.
\<close>

theorem token_codec_roundtrip:
  "encrypt_token secret_key [] = Inr [] \<and> decrypt_token secret_key [] = [] \<and>
   (secret_key \<noteq> [] \<and> s \<noteq> [] \<and> is_str s \<longrightarrow>
      (\<exists>c. encrypt_token secret_key s = Inr c \<and> decrypt_token secret_key c = s))"
proof (intro conjI impI)
  show "encrypt_token secret_key [] = Inr []" by (simp add: encrypt_token_def)
  show "decrypt_token secret_key [] = []" by (simp add: decrypt_token_def)
next
  assume h: "secret_key \<noteq> [] \<and> s \<noteq> [] \<and> is_str s"
  then obtain c where c: "encrypt_token secret_key s = Inr c"
    using encrypt_token_value[of secret_key s] by blast
  with h have "decrypt_token secret_key c = s"
    using decrypt_encrypted(1)[of secret_key s c] by blast
  with c show "\<exists>c. encrypt_token secret_key s = Inr c \<and> decrypt_token secret_key c = s"
    by blast
qed

theorem token_codec_roundtrip_witness:
  "''django-insecure-key'' \<noteq> [] \<and> ''ya29.token'' \<noteq> [] \<and> is_str ''ya29.token'' \<and>
   (\<exists>c. encrypt_token ''django-insecure-key'' ''ya29.token'' = Inr c
        \<and> decrypt_token ''django-insecure-key'' c = ''ya29.token'')"
  using token_codec_roundtrip[of "''django-insecure-key''" "''ya29.token''"]
  by (simp add: is_str_def)

section \<open>Looking up an OAuth session\<close>

text \<open>A table is a list of rows; \<open>objects.get\<close> returns a row when it is the only match.\<close>

lemma distinct_single:
  assumes "distinct zs" and "set zs = {x}"
  shows "zs = [x]"
proof -
  have "length zs = card (set zs)"
    using assms(1) by (simp add: distinct_card)
  then have "length zs = Suc 0"
    using assms(2) by simp
  then obtain z where "zs = [z]"
    by (auto simp: length_Suc_conv)
  with assms(2) show ?thesis by simp
qed

lemma filter_only:
  assumes "distinct xs" and "x \<in> set xs" and "p x"
    and "\<forall>r\<in>set xs. p r \<longrightarrow> r = x"
  shows "filter p xs = [x]"
proof (rule distinct_single)
  show "distinct (filter p xs)"
    using assms(1) by (rule distinct_filter)
  show "set (filter p xs) = {x}"
  proof (intro equalityI subsetI)
    fix r
    assume "r \<in> set (filter p xs)"
    then have "r \<in> set xs" and "p r" by simp_all
    with assms(4) have "r = x" by blast
    then show "r \<in> {x}" by simp
  next
    fix r
    assume "r \<in> {x}"
    then have "r = x" by simp
    with assms(2,3) show "r \<in> set (filter p xs)" by simp
  qed
qed

lemma objects_get_only:
  assumes "distinct xs" and "x \<in> set xs" and "p x"
    and "\<forall>r\<in>set xs. p r \<longrightarrow> r = x"
  shows "objects_get p xs = Inr x"
  by (simp add: objects_get_def filter_only[OF assms])

lemma delete_session_removes: "s \<notin> set (session_rows (delete_session s db))"
  by (simp add: delete_session_def filter_delete_def)

lemma get_oauth_session_found:
  assumes "objects_get (\<lambda>r. oauth_state r = state) (session_rows db) = Inr s"
  shows "get_oauth_session state now db =
           (if now > expires_at s then Inr (None, delete_session s db) else Inr (Some s, db))"
  unfolding get_oauth_session_def is_expired_def assms by simp

text \<open>
  Claim C2. Let \<open>s\<close> be a stored session, the only stored one with its state. When
  its expiry is in the past, \<open>get_oauth_session\<close> on that state returns not-found and
  the store it leaves no longer holds \<open>s\<close> (nothing else is touched); when it is not,
  the lookup returns \<open>s\<close> and leaves the store as it was.
\<close>

theorem get_oauth_session_expiry:
  assumes "distinct (session_rows db)" and "s \<in> set (session_rows db)"
    and "\<forall>r\<in>set (session_rows db). oauth_state r = oauth_state s \<longrightarrow> r = s"
  shows "(expires_at s < now \<longrightarrow>
            get_oauth_session (oauth_state s) now db = Inr (None, delete_session s db)
            \<and> s \<notin> set (session_rows (delete_session s db))
            \<and> social_accounts (delete_session s db) = social_accounts db)
       \<and> (\<not> expires_at s < now \<longrightarrow>
            get_oauth_session (oauth_state s) now db = Inr (Some s, db))"
proof -
  have g: "objects_get (\<lambda>r. oauth_state r = oauth_state s) (session_rows db) = Inr s"
    by (rule objects_get_only[OF assms(1,2) _ assms(3)]) simp
  have k: "social_accounts (delete_session s db) = social_accounts db"
    by (simp add: delete_session_def)
  show ?thesis
  proof (cases "expires_at s < now")
    case True
    then show ?thesis
      using get_oauth_session_found[OF g, of now] delete_session_removes[of s db] k by simp
  next
    case False
    then show ?thesis
      using get_oauth_session_found[OF g, of now] by simp
  qed
qed

theorem get_oauth_session_expiry_witness:
  "sample_session \<in> set (session_rows (empty_db\<lparr>session_rows := [sample_session]\<rparr>))
   \<and> expires_at sample_session < 3000 \<and> \<not> expires_at sample_session < 1500
   \<and> get_oauth_session ''st4te'' 3000 (empty_db\<lparr>session_rows := [sample_session]\<rparr>)
       = Inr (None, empty_db)
   \<and> get_oauth_session ''st4te'' 1500 (empty_db\<lparr>session_rows := [sample_session]\<rparr>)
       = Inr (Some sample_session, empty_db\<lparr>session_rows := [sample_session]\<rparr>)"
proof -
  let ?db = "empty_db\<lparr>session_rows := [sample_session]\<rparr>"
  have d: "distinct (session_rows ?db)" by simp
  have m: "sample_session \<in> set (session_rows ?db)" by simp
  have u: "\<forall>r\<in>set (session_rows ?db).
             oauth_state r = oauth_state sample_session \<longrightarrow> r = sample_session"
    by simp
  have st: "oauth_state sample_session = ''st4te''"
    by (simp add: sample_session_def)
  have ex: "expires_at sample_session = 2000"
    by (simp add: sample_session_def)
  have del: "delete_session sample_session ?db = empty_db"
    by (simp add: delete_session_def filter_delete_def empty_db_def)
  show ?thesis
    using get_oauth_session_expiry[OF d m u, of 3000]
          get_oauth_session_expiry[OF d m u, of 1500]
    by (simp add: st ex del)
qed

section \<open>Token expiry\<close>

text \<open>What \<open>save\<close> leaves in the table: the saved object, and no other row with its key.\<close>

lemma save_account_object:
  "fst (save_account now a db) =
     (if \<exists>r\<in>set (social_accounts db). pk r = pk a then a\<lparr>updated_at := now\<rparr>
      else a\<lparr>created_at := now, updated_at := now\<rparr>)"
  by (simp add: save_account_def Let_def list_ex_iff)

lemma save_account_rows:
  "snd (save_account now a db) =
     db\<lparr>social_accounts :=
          (if \<exists>r\<in>set (social_accounts db). pk r = pk a
           then map (\<lambda>r. if pk r = pk a then fst (save_account now a db) else r)
                  (social_accounts db)
           else social_accounts db @ [fst (save_account now a db)])\<rparr>"
  by (simp add: save_account_def Let_def list_ex_iff)

lemma save_account_key_kept: "pk (fst (save_account now a db)) = pk a"
  by (simp add: save_account_object)

lemma save_account_stored:
  "fst (save_account now a db) \<in> set (social_accounts (snd (save_account now a db)))"
proof (cases "\<exists>r\<in>set (social_accounts db). pk r = pk a")
  case True
  then obtain r where "r \<in> set (social_accounts db)" and "pk r = pk a"
    by blast
  then have "fst (save_account now a db)
               \<in> (\<lambda>r. if pk r = pk a then fst (save_account now a db) else r)
                   ` set (social_accounts db)"
    by (intro image_eqI[of _ _ r]) simp_all
  with True show ?thesis by (simp add: save_account_rows)
next
  case False
  then show ?thesis by (simp add: save_account_rows)
qed

lemma save_account_key:
  assumes "r \<in> set (social_accounts (snd (save_account now a db)))" and "pk r = pk a"
  shows "r = fst (save_account now a db)"
proof (cases "\<exists>r\<in>set (social_accounts db). pk r = pk a")
  case True
  with assms(1) obtain r0 where "r0 \<in> set (social_accounts db)"
      and r: "r = (if pk r0 = pk a then fst (save_account now a db) else r0)"
    by (auto simp: save_account_rows)
  show ?thesis
  proof (cases "pk r0 = pk a")
    case True
    with r show ?thesis by simp
  next
    case False
    with r assms(2) show ?thesis by simp
  qed
next
  case False
  with assms(1) have "r \<in> set (social_accounts db) \<or> r = fst (save_account now a db)"
    by (auto simp: save_account_rows)
  with False assms(2) show ?thesis by blast
qed




section \<open>Disconnecting an account\<close>

text \<open>The revocation never raises: its \<open>except\<close> clause catches every exception.\<close>

lemma revoke_platform_token_returns: "\<exists>r. revoke_platform_token st http a plat = Inr r"
  by (simp add: revoke_platform_token_def split: sum.splits)

text \<open>The tables after \<open>social_account.delete()\<close>.\<close>

lemma delete_account_tables:
  "social_accounts (delete_account a X) = filter (\<lambda>r. pk r \<noteq> pk a) (social_accounts X)"
  "api_call_logs (delete_account a X)
     = filter (\<lambda>r. log_social_account r \<noteq> pk a) (api_call_logs X)"
  "user_analytics (delete_account a X)
     = filter (\<lambda>r. related_social_account r \<noteq> pk a) (user_analytics X)"
  "session_rows (delete_account a X)
     = filter (\<lambda>r. session_social_account r \<noteq> Some (pk a)) (session_rows X)"
  "linkedin_profiles (delete_account a X)
     = filter (\<lambda>r. related_social_account r \<noteq> pk a) (linkedin_profiles X)"
  "linkedin_posts (delete_account a X)
     = filter (\<lambda>r. related_social_account r \<noteq> pk a) (linkedin_posts X)"
  "linkedin_connections (delete_account a X)
     = filter (\<lambda>r. related_social_account r \<noteq> pk a) (linkedin_connections X)"
  "twitter_profiles (delete_account a X)
     = filter (\<lambda>r. related_social_account r \<noteq> pk a) (twitter_profiles X)"
  "tweets (delete_account a X) = filter (\<lambda>r. related_social_account r \<noteq> pk a) (tweets X)"
  "twitter_followers (delete_account a X)
     = filter (\<lambda>r. related_social_account r \<noteq> pk a) (twitter_followers X)"
  "twitter_hashtags (delete_account a X)
     = filter (\<lambda>r. related_social_account r \<noteq> pk a) (twitter_hashtags X)"
  "next_pk (delete_account a X) = next_pk X"
  by (simp_all add: delete_account_def filter_delete_def of_account_def)

lemma filter_twice: "filter P (filter P xs) = filter P xs"
  by simp

text \<open>The store that \<open>disconnect_account\<close> leaves when \<open>objects.get\<close> has found \<open>acct\<close>:
  table by table, the rows of the store before that do not point to \<open>acct\<close>; of the
  sessions, those that neither point to \<open>acct\<close> nor are tagged for (user, platform).\<close>

lemma disconnect_account_try_found:
  assumes "objects_get (\<lambda>a. user a = usr \<and> platform a = plat) (social_accounts db) = Inr acct"
  shows "\<exists>db'. disconnect_account_try st http usr plat db = Inr db'
           \<and> social_accounts db' = filter (\<lambda>a. pk a \<noteq> pk acct) (social_accounts db)
           \<and> api_call_logs db'
               = filter (\<lambda>r. log_social_account r \<noteq> pk acct) (api_call_logs db)
           \<and> user_analytics db'
               = filter (\<lambda>r. related_social_account r \<noteq> pk acct) (user_analytics db)
           \<and> session_rows db'
               = filter (\<lambda>r. session_social_account r \<noteq> Some (pk acct)
                              \<and> \<not> (session_user r = usr \<and> temp_data r ''platform'' = Some plat))
                   (session_rows db)
           \<and> linkedin_profiles db'
               = filter (\<lambda>r. related_social_account r \<noteq> pk acct) (linkedin_profiles db)
           \<and> linkedin_posts db'
               = filter (\<lambda>r. related_social_account r \<noteq> pk acct) (linkedin_posts db)
           \<and> linkedin_connections db'
               = filter (\<lambda>r. related_social_account r \<noteq> pk acct) (linkedin_connections db)
           \<and> twitter_profiles db'
               = filter (\<lambda>r. related_social_account r \<noteq> pk acct) (twitter_profiles db)
           \<and> tweets db' = filter (\<lambda>r. related_social_account r \<noteq> pk acct) (tweets db)
           \<and> twitter_followers db'
               = filter (\<lambda>r. related_social_account r \<noteq> pk acct) (twitter_followers db)
           \<and> twitter_hashtags db'
               = filter (\<lambda>r. related_social_account r \<noteq> pk acct) (twitter_hashtags db)
           \<and> next_pk db' = next_pk db"
proof -
  obtain r where r: "revoke_platform_token st http acct plat = Inr r"
    using revoke_platform_token_returns by blast
  let ?a = "pk acct"
  let ?db1 = "db\<lparr>api_call_logs :=
                    filter_delete (\<lambda>r. log_social_account r = ?a) (api_call_logs db)\<rparr>"
  let ?db2 = "?db1\<lparr>user_analytics := filter_delete (of_account ?a) (user_analytics ?db1)\<rparr>"
  let ?db3 = "?db2\<lparr>session_rows :=
                      filter_delete (\<lambda>r. session_social_account r = Some ?a) (session_rows ?db2)\<rparr>"
  let ?db4 = "cleanup_user_platform_sessions usr plat ?db3"
  let ?db5 = "(if plat = ''linkedin'' then
                 ?db4\<lparr>linkedin_profiles := filter_delete (of_account ?a) (linkedin_profiles ?db4)\<rparr>
               else if plat = ''twitter'' then
                 ?db4\<lparr>twitter_profiles := filter_delete (of_account ?a) (twitter_profiles ?db4),
                       tweets := filter_delete (of_account ?a) (tweets ?db4),
                       twitter_followers := filter_delete (of_account ?a) (twitter_followers ?db4),
                       twitter_hashtags := filter_delete (of_account ?a) (twitter_hashtags ?db4)\<rparr>
               else ?db4)"
  let ?db' = "delete_account acct ?db5"
  have ret: "disconnect_account_try st http usr plat db = Inr ?db'"
    unfolding disconnect_account_try_def assms by (simp add: r Let_def)
  have c: "social_accounts ?db5 = social_accounts db"
    "api_call_logs ?db5 = filter (\<lambda>r. log_social_account r \<noteq> pk acct) (api_call_logs db)"
    "user_analytics ?db5
       = filter (\<lambda>r. related_social_account r \<noteq> pk acct) (user_analytics db)"
    "session_rows ?db5
       = filter (\<lambda>r. \<not> (session_user r = usr \<and> temp_data r ''platform'' = Some plat))
           (filter (\<lambda>r. session_social_account r \<noteq> Some (pk acct)) (session_rows db))"
    "linkedin_posts ?db5 = linkedin_posts db"
    "linkedin_connections ?db5 = linkedin_connections db"
    "next_pk ?db5 = next_pk db"
    by (simp_all add: cleanup_user_platform_sessions_def filter_delete_def of_account_def)
  have p: "linkedin_profiles ?db5
             = (if plat = ''linkedin''
                then filter (\<lambda>r. related_social_account r \<noteq> pk acct) (linkedin_profiles db)
                else linkedin_profiles db)"
    "twitter_profiles ?db5
       = (if plat \<noteq> ''linkedin'' \<and> plat = ''twitter''
          then filter (\<lambda>r. related_social_account r \<noteq> pk acct) (twitter_profiles db)
          else twitter_profiles db)"
    "tweets ?db5
       = (if plat \<noteq> ''linkedin'' \<and> plat = ''twitter''
          then filter (\<lambda>r. related_social_account r \<noteq> pk acct) (tweets db)
          else tweets db)"
    "twitter_followers ?db5
       = (if plat \<noteq> ''linkedin'' \<and> plat = ''twitter''
          then filter (\<lambda>r. related_social_account r \<noteq> pk acct) (twitter_followers db)
          else twitter_followers db)"
    "twitter_hashtags ?db5
       = (if plat \<noteq> ''linkedin'' \<and> plat = ''twitter''
          then filter (\<lambda>r. related_social_account r \<noteq> pk acct) (twitter_hashtags db)
          else twitter_hashtags db)"
    by (simp_all add: cleanup_user_platform_sessions_def filter_delete_def of_account_def)
  have t1: "social_accounts ?db' = filter (\<lambda>a. pk a \<noteq> pk acct) (social_accounts db)"
    by (simp only: delete_account_tables c)
  have t2: "api_call_logs ?db'
              = filter (\<lambda>r. log_social_account r \<noteq> pk acct) (api_call_logs db)"
    by (simp only: delete_account_tables c filter_twice)
  have t3: "user_analytics ?db'
              = filter (\<lambda>r. related_social_account r \<noteq> pk acct) (user_analytics db)"
    by (simp only: delete_account_tables c filter_twice)
  have t4: "session_rows ?db'
              = filter (\<lambda>r. session_social_account r \<noteq> Some (pk acct)
                             \<and> \<not> (session_user r = usr \<and> temp_data r ''platform'' = Some plat))
                  (session_rows db)"
    by (simp only: delete_account_tables c) (simp add: conj_commute conj_left_commute)
  have t5: "linkedin_profiles ?db'
              = filter (\<lambda>r. related_social_account r \<noteq> pk acct) (linkedin_profiles db)"
    by (simp only: delete_account_tables p filter_twice if_distrib[of "filter _"] if_cancel)
  have t6: "linkedin_posts ?db'
              = filter (\<lambda>r. related_social_account r \<noteq> pk acct) (linkedin_posts db)"
    by (simp only: delete_account_tables c)
  have t7: "linkedin_connections ?db'
              = filter (\<lambda>r. related_social_account r \<noteq> pk acct) (linkedin_connections db)"
    by (simp only: delete_account_tables c)
  have t8: "twitter_profiles ?db'
              = filter (\<lambda>r. related_social_account r \<noteq> pk acct) (twitter_profiles db)"
    by (simp only: delete_account_tables p filter_twice if_distrib[of "filter _"] if_cancel)
  have t9: "tweets ?db' = filter (\<lambda>r. related_social_account r \<noteq> pk acct) (tweets db)"
    by (simp only: delete_account_tables p filter_twice if_distrib[of "filter _"] if_cancel)
  have t10: "twitter_followers ?db'
              = filter (\<lambda>r. related_social_account r \<noteq> pk acct) (twitter_followers db)"
    by (simp only: delete_account_tables p filter_twice if_distrib[of "filter _"] if_cancel)
  have t11: "twitter_hashtags ?db'
              = filter (\<lambda>r. related_social_account r \<noteq> pk acct) (twitter_hashtags db)"
    by (simp only: delete_account_tables p filter_twice if_distrib[of "filter _"] if_cancel)
  have t12: "next_pk ?db' = next_pk db"
    by (simp only: delete_account_tables c)
  show ?thesis
    apply (rule exI[of _ ?db'])
    apply (intro conjI)
                apply (rule ret)
               apply (rule t1)
              apply (rule t2)
             apply (rule t3)
            apply (rule t4)
           apply (rule t5)
          apply (rule t6)
         apply (rule t7)
        apply (rule t8)
       apply (rule t9)
      apply (rule t10)
     apply (rule t11)
    apply (rule t12)
    done
qed

text \<open>
  Claim C6. Let exactly one account match (user, platform), so that the revocation is
  reached. Whatever the platform does with the revocation request (the call raises, the
  answer is not 200) and whatever the stored token decrypts to, \<open>_revoke_platform_token\<close>
  returns without raising, and \<open>disconnect_account\<close> returns \<open>True\<close> and leaves the store
  it would leave after a revocation that succeeded: in every table the rows that do not
  point to the account, without the account itself and without the sessions tagged for
  (user, platform); no other row is touched.
\<close>

theorem disconnect_survives_revocation:
  assumes "distinct (social_accounts db)" and "acct \<in> set (social_accounts db)"
    and "user acct = usr" and "platform acct = plat"
    and "\<forall>a\<in>set (social_accounts db). user a = usr \<and> platform a = plat \<longrightarrow> a = acct"
  shows "(\<exists>printed. revoke_platform_token st http acct plat = Inr printed)
       \<and> (\<exists>db'. disconnect_account st http usr plat db = (True, db')
            \<and> social_accounts db' = filter (\<lambda>a. pk a \<noteq> pk acct) (social_accounts db)
            \<and> api_call_logs db'
                = filter (\<lambda>r. log_social_account r \<noteq> pk acct) (api_call_logs db)
            \<and> user_analytics db'
                = filter (\<lambda>r. related_social_account r \<noteq> pk acct) (user_analytics db)
            \<and> session_rows db'
                = filter (\<lambda>r. session_social_account r \<noteq> Some (pk acct)
                               \<and> \<not> (session_user r = usr \<and> temp_data r ''platform'' = Some plat))
                    (session_rows db)
            \<and> linkedin_profiles db'
                = filter (\<lambda>r. related_social_account r \<noteq> pk acct) (linkedin_profiles db)
            \<and> linkedin_posts db'
                = filter (\<lambda>r. related_social_account r \<noteq> pk acct) (linkedin_posts db)
            \<and> linkedin_connections db'
                = filter (\<lambda>r. related_social_account r \<noteq> pk acct) (linkedin_connections db)
            \<and> twitter_profiles db'
                = filter (\<lambda>r. related_social_account r \<noteq> pk acct) (twitter_profiles db)
            \<and> tweets db' = filter (\<lambda>r. related_social_account r \<noteq> pk acct) (tweets db)
            \<and> twitter_followers db'
                = filter (\<lambda>r. related_social_account r \<noteq> pk acct) (twitter_followers db)
            \<and> twitter_hashtags db'
                = filter (\<lambda>r. related_social_account r \<noteq> pk acct) (twitter_hashtags db)
            \<and> next_pk db' = next_pk db
            \<and> disconnect_account st (\<lambda>request. Response
                   \<lparr>resp_status_code = 200, resp_headers = Map.empty, resp_text = [],
                    resp_json = Inr JNull\<rparr>) usr plat db = (True, db'))"
proof -
  have g: "objects_get (\<lambda>a. user a = usr \<and> platform a = plat) (social_accounts db) = Inr acct"
    by (rule objects_get_only[OF assms(1,2) _ assms(5)]) (simp add: assms(3,4))
  note found = disconnect_account_try_found[OF g, of st http]
  let ?ok = "\<lambda>request. Response
                   \<lparr>resp_status_code = 200, resp_headers = Map.empty, resp_text = [],
                    resp_json = Inr JNull\<rparr>"
  obtain r where r: "revoke_platform_token st http acct plat = Inr r"
    using revoke_platform_token_returns by blast
  obtain r' where r': "revoke_platform_token st ?ok acct plat = Inr r'"
    using revoke_platform_token_returns by blast
  have same: "disconnect_account_try st ?ok usr plat db = disconnect_account_try st http usr plat db"
    unfolding disconnect_account_try_def g by (simp add: r r')
  have d: "disconnect_account_try st http usr plat db = Inr db'
           \<Longrightarrow> disconnect_account st http usr plat db = (True, db')
               \<and> disconnect_account st ?ok usr plat db = (True, db')" for db'
    by (simp add: disconnect_account_def same)
  show ?thesis
  proof (intro conjI)
    show "\<exists>printed. revoke_platform_token st http acct plat = Inr printed"
      by (rule revoke_platform_token_returns)
    from found d show "\<exists>db'. disconnect_account st http usr plat db = (True, db')
            \<and> social_accounts db' = filter (\<lambda>a. pk a \<noteq> pk acct) (social_accounts db)
            \<and> api_call_logs db'
                = filter (\<lambda>r. log_social_account r \<noteq> pk acct) (api_call_logs db)
            \<and> user_analytics db'
                = filter (\<lambda>r. related_social_account r \<noteq> pk acct) (user_analytics db)
            \<and> session_rows db'
                = filter (\<lambda>r. session_social_account r \<noteq> Some (pk acct)
                               \<and> \<not> (session_user r = usr \<and> temp_data r ''platform'' = Some plat))
                    (session_rows db)
            \<and> linkedin_profiles db'
                = filter (\<lambda>r. related_social_account r \<noteq> pk acct) (linkedin_profiles db)
            \<and> linkedin_posts db'
                = filter (\<lambda>r. related_social_account r \<noteq> pk acct) (linkedin_posts db)
            \<and> linkedin_connections db'
                = filter (\<lambda>r. related_social_account r \<noteq> pk acct) (linkedin_connections db)
            \<and> twitter_profiles db'
                = filter (\<lambda>r. related_social_account r \<noteq> pk acct) (twitter_profiles db)
            \<and> tweets db' = filter (\<lambda>r. related_social_account r \<noteq> pk acct) (tweets db)
            \<and> twitter_followers db'
                = filter (\<lambda>r. related_social_account r \<noteq> pk acct) (twitter_followers db)
            \<and> twitter_hashtags db'
                = filter (\<lambda>r. related_social_account r \<noteq> pk acct) (twitter_hashtags db)
            \<and> next_pk db' = next_pk db
            \<and> disconnect_account st ?ok usr plat db = (True, db')"
      by blast
  qed
qed

text \<open>The fields of the sample account.\<close>

lemma sample_account_fields:
  "pk (sample_account k plat uid) = k" "user (sample_account k plat uid) = 1"
  "platform (sample_account k plat uid) = plat"
  "platform_user_id (sample_account k plat uid) = uid"
  "access_token (sample_account k plat uid) = ''EAUK''"
  "refresh_token (sample_account k plat uid) = Some []"
  "token_expires_at (sample_account k plat uid) = Some 2000"
  "status (sample_account k plat uid) = ''active''"
  "email (sample_account k plat uid) = ''ada@example.org''"
  by (simp_all add: sample_account_def)

theorem disconnect_survives_revocation_witness:
  "sample_account 3 ''linkedin'' ''urn-a'' \<in> set (social_accounts one_linkedin)
   \<and> revoke_platform_token sample_settings unreachable
        (sample_account 3 ''linkedin'' ''urn-a'') ''linkedin''
      = Inr (RevocationError (Raised RequestException ''connection refused''))
   \<and> disconnect_account sample_settings unreachable 1 ''linkedin'' one_linkedin
      = (True, empty_db\<lparr>linkedin_posts := [\<lparr>related_pk = 2, related_social_account = 9\<rparr>],
                         next_pk := 5\<rparr>)
   \<and> (\<exists>db'. disconnect_account sample_settings unreachable 1 ''linkedin'' one_linkedin
              = (True, db')
            \<and> social_accounts db'
                = filter (\<lambda>a. pk a \<noteq> pk (sample_account 3 ''linkedin'' ''urn-a''))
                    (social_accounts one_linkedin)
            \<and> linkedin_profiles db'
                = filter (\<lambda>r. related_social_account r
                                 \<noteq> pk (sample_account 3 ''linkedin'' ''urn-a''))
                    (linkedin_profiles one_linkedin))"
proof -
  let ?a = "sample_account 3 ''linkedin'' ''urn-a''"
  have rows: "social_accounts one_linkedin = [?a]"
    by (simp add: one_linkedin_def empty_db_def)
  have d: "distinct (social_accounts one_linkedin)" by (simp add: rows)
  have m: "?a \<in> set (social_accounts one_linkedin)" by (simp add: rows)
  have u: "\<forall>a\<in>set (social_accounts one_linkedin).
             user a = 1 \<and> platform a = ''linkedin'' \<longrightarrow> a = ?a"
    by (simp add: rows)
  have tok: "decrypt_token (SECRET_KEY sample_settings) (access_token ?a) = ''tok''"
  proof -
    have "decrypt_token ''django-insecure-key'' ''EAUK'' = ''tok''"
      by code_simp
    then show ?thesis
      by (simp add: sample_account_fields sample_settings_def)
  qed
  have rv: "revoke_platform_token sample_settings unreachable ?a ''linkedin''
             = Inr (RevocationError (Raised RequestException ''connection refused''))"
    by (simp add: revoke_platform_token_def revoke_platform_token_try_def tok unreachable_def)
  have g: "objects_get (\<lambda>a. user a = 1 \<and> platform a = ''linkedin'') (social_accounts one_linkedin)
             = Inr ?a"
    by (simp add: rows objects_get_def sample_account_fields)
  have dv: "disconnect_account sample_settings unreachable 1 ''linkedin'' one_linkedin
             = (True, empty_db\<lparr>linkedin_posts := [\<lparr>related_pk = 2, related_social_account = 9\<rparr>],
                         next_pk := 5\<rparr>)"
    unfolding disconnect_account_def disconnect_account_try_def g
    by (simp add: rv Let_def cleanup_user_platform_sessions_def delete_account_def
        filter_delete_def of_account_def sample_account_fields one_linkedin_def empty_db_def)
  from disconnect_survives_revocation
         [OF d m sample_account_fields(2) sample_account_fields(3) u,
          of sample_settings unreachable]
  have "\<exists>db'. disconnect_account sample_settings unreachable 1 ''linkedin'' one_linkedin
              = (True, db')
            \<and> social_accounts db'
                = filter (\<lambda>a. pk a \<noteq> pk (sample_account 3 ''linkedin'' ''urn-a''))
                    (social_accounts one_linkedin)
            \<and> linkedin_profiles db'
                = filter (\<lambda>r. related_social_account r
                                 \<noteq> pk (sample_account 3 ''linkedin'' ''urn-a''))
                    (linkedin_profiles one_linkedin)"
    by blast
  with m rv dv show ?thesis by blast
qed

text \<open>
  Claim C5 says that \<open>disconnect_account\<close> returns \<open>False\<close> and touches nothing only
  when no account matches (user, platform), and deletes and returns \<open>True\<close> otherwise.
  On a store where user 1 has linked two LinkedIn identities, \<open>objects.get\<close> raises
  \<open>MultipleObjectsReturned\<close>, the catch-all \<open>except\<close> returns \<open>False\<close>, and both accounts
  and their rows stay, although an account matches.
\<close>

theorem disconnect_account_two_matches:
  "sample_account 3 ''linkedin'' ''urn-a'' \<in> set (social_accounts two_linkedin)
   \<and> user (sample_account 3 ''linkedin'' ''urn-a'') = 1
   \<and> platform (sample_account 3 ''linkedin'' ''urn-a'') = ''linkedin''
   \<and> disconnect_account sample_settings (answers 200 []) 1 ''linkedin'' two_linkedin
      = (False, two_linkedin)"
proof -
  have rows: "social_accounts two_linkedin
               = [sample_account 3 ''linkedin'' ''urn-a'', sample_account 4 ''linkedin'' ''urn-b'']"
    by (simp add: two_linkedin_def empty_db_def)
  have g: "objects_get (\<lambda>a. user a = 1 \<and> platform a = ''linkedin'') (social_accounts two_linkedin)
             = Inl (Raised MultipleObjectsReturned ''get() returned more than one row'')"
    by (simp add: rows objects_get_def sample_account_fields)
  have "disconnect_account sample_settings (answers 200 []) 1 ''linkedin'' two_linkedin
          = (False, two_linkedin)"
    unfolding disconnect_account_def disconnect_account_try_def g by simp
  then show ?thesis
    by (simp add: rows sample_account_fields)
qed

text \<open>With no matching account, \<open>False\<close> and an untouched store.\<close>

lemma disconnect_account_no_match:
  assumes "\<forall>a\<in>set (social_accounts db). \<not> (user a = usr \<and> platform a = plat)"
  shows "disconnect_account st http usr plat db = (False, db)"
proof -
  have "filter (\<lambda>a. user a = usr \<and> platform a = plat) (social_accounts db) = []"
    using assms by (simp add: filter_empty_conv)
  then show ?thesis
    by (simp add: disconnect_account_def disconnect_account_try_def objects_get_def)
qed

section \<open>A callback with the session of another user\<close>

text \<open>A callback with a code and the state of an unexpired session of another user:
  \<open>linkedin_callback\<close> deletes the session and touches no account, \<open>twitter_callback\<close>
  leaves the store as the lookup left it. Neither reaches the exchange.\<close>

lemma linkedin_callback_mismatch:
  assumes "\<not> truthy (get_error request)" and "truthy (get_code request)"
    and "get_state request = Some state" and "state \<noteq> []"
    and "get_oauth_session state now db = Inr (Some s, db1)"
    and "session_user s \<noteq> request_user request"
  shows "linkedin_callback exchange now request db =
           Inr (Error ''Session does not belong to current user'', delete_session s db1)"
    and "s \<notin> set (session_rows (delete_session s db1))"
    and "social_accounts (delete_session s db1) = social_accounts db1"
  using assms
  by (simp_all add: linkedin_callback_def truthy_def str_or_def delete_session_def
      filter_delete_def)

lemma twitter_callback_mismatch:
  assumes "\<not> truthy (get_error request)" and "truthy (get_code request)"
    and "get_state request = Some state" and "state \<noteq> []"
    and "get_oauth_session state now db = Inr (Some s, db1)"
    and "session_user s \<noteq> request_user request"
  shows "twitter_callback exchange now request db = Inr (Error ''Invalid session state'', db1)"
  using assms
  by (simp add: twitter_callback_def truthy_def str_or_def)

lemma sample_lookup:
  "get_oauth_session ''st4te'' 1500 (empty_db\<lparr>session_rows := [sample_session]\<rparr>)
     = Inr (Some sample_session, empty_db\<lparr>session_rows := [sample_session]\<rparr>)"
proof -
  have "objects_get (\<lambda>r. oauth_state r = ''st4te'')
          (session_rows (empty_db\<lparr>session_rows := [sample_session]\<rparr>)) = Inr sample_session"
    by (simp add: objects_get_def sample_session_def)
  then show ?thesis
    unfolding get_oauth_session_def by (simp add: is_expired_def sample_session_def)
qed

text \<open>
  Claim C4 says that a callback whose state resolves to an unexpired session of another
  user fails, that the mismatched session is deleted and that no account is created or
  changed. \<open>twitter_callback\<close> fails and changes no account, but it keeps the session:
  user 2 calls back with the state of the session of user 1, and the store afterwards
  is the store before, session included.
\<close>

theorem twitter_callback_foreign_session:
  "session_user sample_session = 1 \<and> request_user foreign_callback = 2
   \<and> \<not> is_expired 1500 sample_session
   \<and> twitter_callback sample_exchange 1500 foreign_callback
        (empty_db\<lparr>session_rows := [sample_session]\<rparr>)
      = Inr (Error ''Invalid session state'', empty_db\<lparr>session_rows := [sample_session]\<rparr>)"
proof -
  have "twitter_callback sample_exchange 1500 foreign_callback
          (empty_db\<lparr>session_rows := [sample_session]\<rparr>)
        = Inr (Error ''Invalid session state'', empty_db\<lparr>session_rows := [sample_session]\<rparr>)"
    by (rule twitter_callback_mismatch[where state="''st4te''", OF _ _ _ _ sample_lookup])
       (simp_all add: foreign_callback_def truthy_def sample_session_def)
  then show ?thesis
    by (simp add: is_expired_def sample_session_def foreign_callback_def)
qed

theorem twitter_callback_foreign_session_witness:
  "\<not> truthy (get_error foreign_callback) \<and> truthy (get_code foreign_callback)
   \<and> truthy (get_state foreign_callback)
   \<and> session_user sample_session \<noteq> request_user foreign_callback
   \<and> twitter_callback sample_exchange 1500 foreign_callback
        (empty_db\<lparr>session_rows := [sample_session]\<rparr>)
      = Inr (Error ''Invalid session state'', empty_db\<lparr>session_rows := [sample_session]\<rparr>)"
  using twitter_callback_foreign_session
  by (simp add: foreign_callback_def truthy_def)

text \<open>On the same request and store \<open>linkedin_callback\<close> deletes the session.\<close>

lemma linkedin_callback_foreign_session:
  "linkedin_callback sample_exchange 1500 foreign_callback
     (empty_db\<lparr>session_rows := [sample_session]\<rparr>)
   = Inr (Error ''Session does not belong to current user'', empty_db)"
proof -
  have "delete_session sample_session (empty_db\<lparr>session_rows := [sample_session]\<rparr>) = empty_db"
    by (simp add: delete_session_def filter_delete_def empty_db_def)
  moreover have "linkedin_callback sample_exchange 1500 foreign_callback
          (empty_db\<lparr>session_rows := [sample_session]\<rparr>)
        = Inr (Error ''Session does not belong to current user'',
               delete_session sample_session (empty_db\<lparr>session_rows := [sample_session]\<rparr>))"
    by (rule linkedin_callback_mismatch(1)[where state="''st4te''", OF _ _ _ _ sample_lookup])
       (simp_all add: foreign_callback_def truthy_def sample_session_def)
  ultimately show ?thesis by simp
qed

section \<open>The call log of the request client\<close>

text \<open>\<open>_log_api_call\<close> writes one row when it returns; without headers it returns.\<close>

lemma log_api_call_no_headers:
  "log_api_call lib now a endp meth code rt Map.empty err db =
     Inr (db\<lparr>api_call_logs :=
               api_call_logs db @
                 [\<lparr>log_pk = next_pk db, log_user = user a, log_social_account = pk a,
                   endpoint = endp, log_method = str_upper meth, status_code = code,
                   response_time = rt, rate_limit_remaining = None, rate_limit_reset = None,
                   error_message = err, log_created_at = now\<rparr>],
             next_pk := next_pk db + 1\<rparr>)"
  by (simp add: log_api_call_def truthy_def)

lemma log_api_call_one_row:
  assumes "log_api_call lib now a endp meth code rt headers err db = Inr db'"
  shows "\<exists>row. api_call_logs db' = api_call_logs db @ [row] \<and> status_code row = code
               \<and> error_message row = err \<and> log_social_account row = pk a"
  using assms
  by (auto simp: log_api_call_def Let_def split: sum.splits if_splits)

lemma str_upper_get: "str_upper ''GET'' = ''GET''"
  by (simp add: str_upper_def in_range_def)

text \<open>
  The three ways a request that is issued can end, for an account with a usable token
  (\<open>get_valid_token\<close> returns it and changes nothing): no response, where one row with
  status 0 is written; status 200, where the payload is returned after the one row of
  the first \<open>_log_api_call\<close>; any other status, where \<open>_log_api_call\<close> runs a second time.
\<close>

lemma make_request_transport_failure:
  assumes "get_valid_token st now a db = (Some tok, a, db)" and "tok \<noteq> []"
    and "str_upper meth = ''GET''" and "\<forall>request. http request = Failed e"
  shows "make_request lib st http now rt a endp meth params data headers db =
           Inr (None, a,
                db\<lparr>api_call_logs :=
                      api_call_logs db @
                        [\<lparr>log_pk = next_pk db, log_user = user a, log_social_account = pk a,
                          endpoint = endp, log_method = ''GET'', status_code = 0,
                          response_time = rt, rate_limit_remaining = None,
                          rate_limit_reset = None, error_message = str_exc e,
                          log_created_at = now\<rparr>],
                    next_pk := next_pk db + 1\<rparr>)"
  using assms
  by (simp add: make_request_def make_request_try_def truthy_def Let_def
      log_api_call_no_headers)

lemma make_request_status_200:
  assumes "get_valid_token st now a db = (Some tok, a, db)" and "tok \<noteq> []"
    and "str_upper meth = ''GET''" and "\<forall>request. http request = Response response"
    and "resp_status_code response = 200" and "resp_json response = Inr payload"
    and "log_api_call lib now a endp meth 200 rt (resp_headers response) [] db = Inr db1"
  shows "make_request lib st http now rt a endp meth params data headers db =
           Inr (if payload = JNull then None else Some payload, a, db1)"
  using assms
  by (simp add: make_request_def make_request_try_def truthy_def Let_def)

lemma make_request_other_status:
  assumes "get_valid_token st now a db = (Some tok, a, db)" and "tok \<noteq> []"
    and "str_upper meth = ''GET''" and "\<forall>request. http request = Response response"
    and "resp_status_code response \<noteq> 200"
    and "log_api_call lib now a endp meth (resp_status_code response) rt
           (resp_headers response) [] db = Inr db1"
    and "log_api_call lib now a endp meth (resp_status_code response) rt
           (resp_headers response) (resp_text response) db1 = Inr db2"
  shows "make_request lib st http now rt a endp meth params data headers db =
           Inr (None, a, db2)"
  using assms
  by (simp add: make_request_def make_request_try_def truthy_def Let_def)

text \<open>
  Claim C7 says that every issued request writes exactly one call log entry. A request
  answered with a status other than 200 writes two: \<open>make_request\<close> logs the call as
  soon as the response is there and, in the branch for a status other than 200, logs it
  again with the response text. Here a GET for a Twitter account with a valid token is
  answered with 404 and leaves the rows 1 and 2 in a log that was empty.
\<close>

theorem make_request_logs_twice:
  "make_request sample_library sample_settings (answers 404 ''Not Found'') 1500 120
     (sample_account 3 ''twitter'' ''42'') ''/users/me'' ''GET'' None None None
     (empty_db\<lparr>social_accounts := [sample_account 3 ''twitter'' ''42'']\<rparr>)
   = Inr (None, sample_account 3 ''twitter'' ''42'',
          empty_db\<lparr>social_accounts := [sample_account 3 ''twitter'' ''42''],
                    api_call_logs :=
                      [\<lparr>log_pk = 1, log_user = 1, log_social_account = 3,
                        endpoint = ''/users/me'', log_method = ''GET'', status_code = 404,
                        response_time = 120, rate_limit_remaining = None,
                        rate_limit_reset = None, error_message = [],
                        log_created_at = 1500\<rparr>,
                       \<lparr>log_pk = 2, log_user = 1, log_social_account = 3,
                        endpoint = ''/users/me'', log_method = ''GET'', status_code = 404,
                        response_time = 120, rate_limit_remaining = None,
                        rate_limit_reset = None, error_message = ''Not Found'',
                        log_created_at = 1500\<rparr>],
                    next_pk := 3\<rparr>)"
proof -
  let ?a = "sample_account 3 ''twitter'' ''42''"
  let ?db = "empty_db\<lparr>social_accounts := [?a]\<rparr>"
  let ?r = "\<lparr>resp_status_code = 404, resp_headers = Map.empty, resp_text = ''Not Found'',
             resp_json = Inr (JObj [])\<rparr>"
  have tok: "decrypt_token ''django-insecure-key'' ''EAUK'' = ''tok''"
    by code_simp
  have g: "get_valid_token sample_settings 1500 ?a ?db = (Some ''tok'', ?a, ?db)"
    by (simp add: get_valid_token_def is_token_expired_def sample_account_fields
        sample_settings_def tok)
  have h: "\<forall>request. answers 404 ''Not Found'' request = Response ?r"
    by (simp add: answers_def)
  let ?log1 = "\<lparr>log_pk = 1, log_user = 1, log_social_account = 3,
                 endpoint = ''/users/me'', log_method = ''GET'', status_code = 404,
                 response_time = 120, rate_limit_remaining = None,
                 rate_limit_reset = None, error_message = [], log_created_at = 1500\<rparr>"
  let ?log2 = "\<lparr>log_pk = 2, log_user = 1, log_social_account = 3,
                 endpoint = ''/users/me'', log_method = ''GET'', status_code = 404,
                 response_time = 120, rate_limit_remaining = None,
                 rate_limit_reset = None, error_message = ''Not Found'',
                 log_created_at = 1500\<rparr>"
  let ?db1 = "empty_db\<lparr>social_accounts := [?a], api_call_logs := [?log1], next_pk := 2\<rparr>"
  let ?db2 = "empty_db\<lparr>social_accounts := [?a], api_call_logs := [?log1, ?log2],
                       next_pk := 3\<rparr>"
  have l1: "log_api_call sample_library 1500 ?a ''/users/me'' ''GET'' (resp_status_code ?r) 120
              (resp_headers ?r) [] ?db = Inr ?db1"
    by (simp add: log_api_call_no_headers str_upper_get sample_account_fields empty_db_def)
  have l2: "log_api_call sample_library 1500 ?a ''/users/me'' ''GET'' (resp_status_code ?r) 120
              (resp_headers ?r) (resp_text ?r) ?db1 = Inr ?db2"
    by (simp add: log_api_call_no_headers str_upper_get sample_account_fields empty_db_def)
  show ?thesis
    by (rule make_request_other_status[OF g _ str_upper_get h _ l1 l2]) simp_all
qed

section \<open>Storing tokens for an account that exists\<close>

text \<open>When the expiry computation of \<open>store_tokens\<close> returns and when it raises; with
  the clock at 3000 an \<open>expires_in\<close> of $10^{12}$ seconds leads past the year 9999.\<close>

lemma compute_expires_at_absent:
  "compute_expires_at now None = Inr None" "compute_expires_at now (Some 0) = Inr None"
  by (simp_all add: compute_expires_at_def)

lemma compute_expires_at_in_range:
  assumes "n \<noteq> 0" and "- 999999999 \<le> n div 86400" and "n div 86400 \<le> 999999999"
    and "datetime_min \<le> now + n * 1000000" and "now + n * 1000000 \<le> datetime_max"
  shows "compute_expires_at now (Some n) = Inr (Some (now + n * 1000000))"
  using assms by (simp add: compute_expires_at_def timedelta_seconds_def datetime_add_def)

lemma compute_expires_at_out_of_range:
  assumes "n \<noteq> 0"
    and "\<not> (- 999999999 \<le> n div 86400 \<and> n div 86400 \<le> 999999999
             \<and> datetime_min \<le> now + n * 1000000 \<and> now + n * 1000000 \<le> datetime_max)"
  shows "\<exists>msg. compute_expires_at now (Some n) = Inl (Raised OverflowError msg)"
  using assms by (auto simp: compute_expires_at_def timedelta_seconds_def datetime_add_def)

lemma store_tokens_expiry_overflow:
  "store_tokens st 3000 usr plat access_tok refresh_tok (Some 1000000000000) scp user_data db
     = Inl (Raised OverflowError ''date value out of range'')"
  by (simp add: store_tokens_def compute_expires_at_def timedelta_seconds_def
      datetime_add_def datetime_min_def datetime_max_def)

lemma encrypt_token_returns:
  "secret \<noteq> [] \<Longrightarrow> \<exists>c. encrypt_token secret tok = Inr c"
  by (simp add: encrypt_token_def Let_def str_encode_def)

lemma encrypt_optional_returns:
  assumes "SECRET_KEY st \<noteq> []"
  shows "\<exists>er. (if truthy refresh_tok
               then encrypt_token (SECRET_KEY st) (str_or refresh_tok [])
               else Inr []) = Inr er \<and> (\<not> truthy refresh_tok \<longrightarrow> er = [])"
  using encrypt_token_returns[OF assms, of "str_or refresh_tok []"]
  by (cases "truthy refresh_tok") auto

text \<open>The update branch, given what the expiry computation, \<open>objects.get\<close> and the two
  encryptions return.\<close>

lemma store_tokens_update:
  assumes ex: "compute_expires_at now expires_in = Inr expires"
    and uid: "ud ''id'' = Some uid" "uid \<noteq> []"
    and found: "objects_get (\<lambda>a. user a = usr \<and> platform a = plat \<and> platform_user_id a = uid)
                  (social_accounts db) = Inr acct"
    and ea: "encrypt_token (SECRET_KEY st) access_tok = Inr ea"
    and er: "(if truthy refresh_tok then encrypt_token (SECRET_KEY st) (str_or refresh_tok [])
              else Inr []) = Inr er"
  shows "store_tokens st now usr plat access_tok refresh_tok expires_in scp (Some ud) db =
           Inr (save_account now
                  (acct\<lparr>username := dict_get ud ''username'' (username acct),
                         display_name := dict_get ud ''name'' (display_name acct),
                         email := dict_get ud ''email'' (email acct),
                         profile_url := dict_get ud ''profile_url'' (profile_url acct),
                         avatar_url := dict_get ud ''avatar_url'' (avatar_url acct),
                         access_token := ea,
                         refresh_token := Some er,
                         token_expires_at := expires,
                         scope := str_or scp [],
                         status := ''active'',
                         last_sync := Some now,
                         extra_data := extra_data acct ++ ud\<rparr>)
                  db)"
proof -
  have t: "truthy (ud ''id'')" and i: "str_or (ud ''id'') [] = uid"
    using uid by (simp_all add: truthy_def str_or_def)
  show ?thesis
    by (simp add: store_tokens_def Let_def ex t i found ea er)
qed

text \<open>The create branch, when no account matches the natural key.\<close>

lemma store_tokens_create:
  assumes ex: "compute_expires_at now expires_in = Inr expires"
    and uid: "ud ''id'' = Some uid" "uid \<noteq> []"
    and none: "\<forall>a\<in>set (social_accounts db).
                 \<not> (user a = usr \<and> platform a = plat \<and> platform_user_id a = uid)"
    and ea: "encrypt_token (SECRET_KEY st) access_tok = Inr ea"
    and er: "(if truthy refresh_tok then encrypt_token (SECRET_KEY st) (str_or refresh_tok [])
              else Inr []) = Inr er"
  shows "\<exists>a' db'. store_tokens st now usr plat access_tok refresh_tok expires_in scp (Some ud) db
                   = Inr (a', db')
           \<and> refresh_token a' = Some er \<and> access_token a' = ea \<and> status a' = ''active''
           \<and> token_expires_at a' = expires
           \<and> extra_data a' = ud
           \<and> social_accounts db' = social_accounts db @ [a']"
proof -
  have t: "truthy (ud ''id'')" and i: "str_or (ud ''id'') [] = uid"
    using uid by (simp_all add: truthy_def str_or_def)
  have "filter (\<lambda>a. user a = usr \<and> platform a = plat \<and> platform_user_id a = uid)
          (social_accounts db) = []"
    using none by (simp add: filter_empty_conv)
  then have g: "objects_get (\<lambda>a. user a = usr \<and> platform a = plat \<and> platform_user_id a = uid)
                  (social_accounts db) = Inl (Raised DoesNotExist ''matching query does not exist'')"
    by (simp add: objects_get_def)
  show ?thesis
    by (simp add: store_tokens_def Let_def ex t i g ea er)
qed

text \<open>The update branch, for the one account that matches the natural key: the object
  that is saved, the object that is returned and the rows that are left.\<close>

lemma store_tokens_update_saved:
  assumes "SECRET_KEY st \<noteq> []" and "compute_expires_at now expires_in = Inr expires"
    and "ud ''id'' = Some uid" and "uid \<noteq> []"
    and "distinct (social_accounts db)" and "acct \<in> set (social_accounts db)"
    and "user acct = usr" and "platform acct = plat" and "platform_user_id acct = uid"
    and "\<forall>a\<in>set (social_accounts db).
           user a = usr \<and> platform a = plat \<and> platform_user_id a = uid \<longrightarrow> a = acct"
  shows "\<exists>ea er a' db'.
           store_tokens st now usr plat access_tok refresh_tok expires_in scp (Some ud) db
             = Inr (a', db')
           \<and> (\<not> truthy refresh_tok \<longrightarrow> er = [])
           \<and> a' = acct\<lparr>username := dict_get ud ''username'' (username acct),
                        display_name := dict_get ud ''name'' (display_name acct),
                        email := dict_get ud ''email'' (email acct),
                        profile_url := dict_get ud ''profile_url'' (profile_url acct),
                        avatar_url := dict_get ud ''avatar_url'' (avatar_url acct),
                        access_token := ea,
                        refresh_token := Some er,
                        token_expires_at := expires,
                        scope := str_or scp [],
                        status := ''active'',
                        last_sync := Some now,
                        extra_data := extra_data acct ++ ud,
                        updated_at := now\<rparr>
           \<and> db' = db\<lparr>social_accounts :=
                         map (\<lambda>r. if pk r = pk acct then a' else r) (social_accounts db)\<rparr>
           \<and> a' \<in> set (social_accounts db')
           \<and> (\<forall>r\<in>set (social_accounts db'). pk r = pk acct \<longrightarrow> r = a')"
proof -
  have g: "objects_get (\<lambda>a. user a = usr \<and> platform a = plat \<and> platform_user_id a = uid)
             (social_accounts db) = Inr acct"
    by (rule objects_get_only[OF assms(5,6) _ assms(10)]) (simp add: assms(7,8,9))
  obtain ea where ea: "encrypt_token (SECRET_KEY st) access_tok = Inr ea"
    using encrypt_token_returns[OF assms(1)] by blast
  obtain er where er: "(if truthy refresh_tok
                        then encrypt_token (SECRET_KEY st) (str_or refresh_tok [])
                        else Inr []) = Inr er"
      and er0: "\<not> truthy refresh_tok \<longrightarrow> er = []"
    using encrypt_optional_returns[OF assms(1)] by blast
  let ?u = "acct\<lparr>username := dict_get ud ''username'' (username acct),
                    display_name := dict_get ud ''name'' (display_name acct),
                    email := dict_get ud ''email'' (email acct),
                    profile_url := dict_get ud ''profile_url'' (profile_url acct),
                    avatar_url := dict_get ud ''avatar_url'' (avatar_url acct),
                    access_token := ea,
                    refresh_token := Some er,
                    token_expires_at := expires,
                    scope := str_or scp [],
                    status := ''active'',
                    last_sync := Some now,
                    extra_data := extra_data acct ++ ud\<rparr>"
  let ?a' = "fst (save_account now ?u db)"
  let ?db' = "snd (save_account now ?u db)"
  have s: "store_tokens st now usr plat access_tok refresh_tok expires_in scp (Some ud) db
             = Inr (?a', ?db')"
    using store_tokens_update[where ud=ud and uid=uid and st=st and refresh_tok=refresh_tok
            and now=now and expires_in=expires_in and expires=expires and scp=scp,
            OF assms(2,3,4) g ea er]
    by simp
  have stored: "\<exists>r\<in>set (social_accounts db). pk r = pk ?u"
    using assms(6) by (intro bexI[of _ acct]) simp_all
  have a': "?a' = ?u\<lparr>updated_at := now\<rparr>"
    using stored by (simp only: save_account_object if_True)
  have rows: "?db' = db\<lparr>social_accounts :=
                         map (\<lambda>r. if pk r = pk acct then ?a' else r) (social_accounts db)\<rparr>"
    using stored save_account_rows[of now ?u db] by simp
  have m: "?a' \<in> set (social_accounts ?db')"
    by (rule save_account_stored)
  have k: "\<forall>r\<in>set (social_accounts ?db'). pk r = pk acct \<longrightarrow> r = ?a'"
  proof (intro ballI impI)
    fix r
    assume "r \<in> set (social_accounts ?db')" and "pk r = pk acct"
    then show "r = ?a'" using save_account_key[of r now ?u db] by simp
  qed
  from s er0 a' rows m k show ?thesis by blast
qed

text \<open>
  Claim C8, amended. When \<open>store_tokens\<close> gets to its lookup (the expiry computation
  has not raised, \<open>user_data\<close> has an id) and finds the account for the natural key
  (user, platform, platform user id), each display field (username, display name,
  e-mail, profile URL, avatar URL) is overwritten where \<open>user_data\<close> has the field's key,
  with the value found there, empty or not, and keeps the stored value where the key is
  absent; the attribute bag is merged (the entries of \<open>user_data\<close> win, the other entries
  stay); the status becomes "active"; the row of the account is replaced by the saved
  object and the other rows stay.
\<close>

theorem store_tokens_updates_present_keys:
  assumes "SECRET_KEY st \<noteq> []" and "compute_expires_at now expires_in = Inr expires"
    and "ud ''id'' = Some uid" and "uid \<noteq> []"
    and "distinct (social_accounts db)" and "acct \<in> set (social_accounts db)"
    and "user acct = usr" and "platform acct = plat" and "platform_user_id acct = uid"
    and "\<forall>a\<in>set (social_accounts db).
           user a = usr \<and> platform a = plat \<and> platform_user_id a = uid \<longrightarrow> a = acct"
  shows "\<exists>a' db'. store_tokens st now usr plat access_tok refresh_tok expires_in scp (Some ud) db
                   = Inr (a', db')
           \<and> username a' = (case ud ''username'' of Some v \<Rightarrow> v | None \<Rightarrow> username acct)
           \<and> display_name a' = (case ud ''name'' of Some v \<Rightarrow> v | None \<Rightarrow> display_name acct)
           \<and> email a' = (case ud ''email'' of Some v \<Rightarrow> v | None \<Rightarrow> email acct)
           \<and> profile_url a' = (case ud ''profile_url'' of Some v \<Rightarrow> v | None \<Rightarrow> profile_url acct)
           \<and> avatar_url a' = (case ud ''avatar_url'' of Some v \<Rightarrow> v | None \<Rightarrow> avatar_url acct)
           \<and> (\<forall>k. extra_data a' k = (case ud k of Some v \<Rightarrow> Some v | None \<Rightarrow> extra_data acct k))
           \<and> status a' = ''active''
           \<and> token_expires_at a' = expires
           \<and> pk a' = pk acct
           \<and> db' = db\<lparr>social_accounts :=
                         map (\<lambda>r. if pk r = pk acct then a' else r) (social_accounts db)\<rparr>
           \<and> a' \<in> set (social_accounts db')
           \<and> (\<forall>r\<in>set (social_accounts db'). pk r = pk acct \<longrightarrow> r = a')"
proof -
  obtain ea er a' db' where
      s: "store_tokens st now usr plat access_tok refresh_tok expires_in scp (Some ud) db
            = Inr (a', db')"
    and a': "a' = acct\<lparr>username := dict_get ud ''username'' (username acct),
                        display_name := dict_get ud ''name'' (display_name acct),
                        email := dict_get ud ''email'' (email acct),
                        profile_url := dict_get ud ''profile_url'' (profile_url acct),
                        avatar_url := dict_get ud ''avatar_url'' (avatar_url acct),
                        access_token := ea,
                        refresh_token := Some er,
                        token_expires_at := expires,
                        scope := str_or scp [],
                        status := ''active'',
                        last_sync := Some now,
                        extra_data := extra_data acct ++ ud,
                        updated_at := now\<rparr>"
    and rows: "db' = db\<lparr>social_accounts :=
                         map (\<lambda>r. if pk r = pk acct then a' else r) (social_accounts db)\<rparr>"
    and m: "a' \<in> set (social_accounts db')"
    and k: "\<forall>r\<in>set (social_accounts db'). pk r = pk acct \<longrightarrow> r = a'"
    using store_tokens_update_saved[where ud=ud and uid=uid and now=now
            and access_tok=access_tok and refresh_tok=refresh_tok
            and expires_in=expires_in and expires=expires and scp=scp, OF assms]
    by blast
  have f: "username a' = (case ud ''username'' of Some v \<Rightarrow> v | None \<Rightarrow> username acct)"
          "display_name a' = (case ud ''name'' of Some v \<Rightarrow> v | None \<Rightarrow> display_name acct)"
          "email a' = (case ud ''email'' of Some v \<Rightarrow> v | None \<Rightarrow> email acct)"
          "profile_url a' = (case ud ''profile_url'' of Some v \<Rightarrow> v | None \<Rightarrow> profile_url acct)"
          "avatar_url a' = (case ud ''avatar_url'' of Some v \<Rightarrow> v | None \<Rightarrow> avatar_url acct)"
          "status a' = ''active''" "token_expires_at a' = expires" "pk a' = pk acct"
    unfolding a' by (simp_all add: dict_get_def)
  have e: "\<forall>k. extra_data a' k = (case ud k of Some v \<Rightarrow> Some v | None \<Rightarrow> extra_data acct k)"
    unfolding a' by (simp add: map_add_def)
  from s f e rows m k show ?thesis by blast
qed

text \<open>The sample store and the sample \<open>user_data\<close>.\<close>

lemma one_linkedin_accounts:
  "social_accounts one_linkedin = [sample_account 3 ''linkedin'' ''urn-a'']"
  by (simp add: one_linkedin_def empty_db_def)

lemma sample_user_data_keys:
  "sample_user_data ''id'' = Some ''urn-a''" "sample_user_data ''name'' = Some ''Ada King''"
  "sample_user_data ''email'' = Some []" "sample_user_data ''username'' = None"
  "sample_user_data ''profile_url'' = None" "sample_user_data ''avatar_url'' = None"
  by (simp_all add: sample_user_data_def)

lemma sample_secret_key: "SECRET_KEY sample_settings \<noteq> []"
  by (simp add: sample_settings_def)

lemma sample_expiry: "compute_expires_at 3000 (Some 3600) = Inr (Some 3600003000)"
  by (simp add: compute_expires_at_def timedelta_seconds_def datetime_add_def
      datetime_min_def datetime_max_def)

theorem store_tokens_updates_present_keys_witness:
  "sample_account 3 ''linkedin'' ''urn-a'' \<in> set (social_accounts one_linkedin)
   \<and> compute_expires_at 3000 (Some 3600) = Inr (Some 3600003000)
   \<and> sample_user_data ''email'' = Some [] \<and> sample_user_data ''username'' = None
   \<and> (\<exists>a' db'. store_tokens sample_settings 3000 1 ''linkedin'' ''tok'' None (Some 3600) None
                    (Some sample_user_data) one_linkedin = Inr (a', db')
          \<and> email a' = [] \<and> display_name a' = ''Ada King'' \<and> username a' = ''ada''
          \<and> extra_data a' ''id'' = Some ''urn-a'' \<and> extra_data a' ''email'' = Some []
          \<and> status a' = ''active'' \<and> token_expires_at a' = Some 3600003000
          \<and> a' \<in> set (social_accounts db'))"
proof -
  let ?a = "sample_account 3 ''linkedin'' ''urn-a''"
  have d: "distinct (social_accounts one_linkedin)"
    and m: "?a \<in> set (social_accounts one_linkedin)"
    and u: "\<forall>a\<in>set (social_accounts one_linkedin).
              user a = 1 \<and> platform a = ''linkedin'' \<and> platform_user_id a = ''urn-a''
              \<longrightarrow> a = ?a"
    by (simp_all add: one_linkedin_accounts)
  have ne: "''urn-a'' \<noteq> []" by simp
  from store_tokens_updates_present_keys
         [where ud=sample_user_data and uid="''urn-a''" and now=3000 and access_tok="''tok''"
            and refresh_tok=None and expires_in="Some 3600" and scp=None,
          OF sample_secret_key sample_expiry sample_user_data_keys(1) ne d m
             sample_account_fields(2) sample_account_fields(3) sample_account_fields(4) u]
  obtain a' db' where
      "store_tokens sample_settings 3000 1 ''linkedin'' ''tok'' None (Some 3600) None
         (Some sample_user_data) one_linkedin = Inr (a', db')"
      "email a' = (case sample_user_data ''email'' of Some v \<Rightarrow> v | None \<Rightarrow> email ?a)"
      "display_name a' = (case sample_user_data ''name'' of Some v \<Rightarrow> v | None \<Rightarrow> display_name ?a)"
      "username a' = (case sample_user_data ''username'' of Some v \<Rightarrow> v | None \<Rightarrow> username ?a)"
      "\<forall>k. extra_data a' k
             = (case sample_user_data k of Some v \<Rightarrow> Some v | None \<Rightarrow> extra_data ?a k)"
      "status a' = ''active''" "token_expires_at a' = Some 3600003000"
      "a' \<in> set (social_accounts db')"
    by blast
  then have "store_tokens sample_settings 3000 1 ''linkedin'' ''tok'' None (Some 3600) None
               (Some sample_user_data) one_linkedin = Inr (a', db')
             \<and> email a' = [] \<and> display_name a' = ''Ada King'' \<and> username a' = ''ada''
             \<and> extra_data a' ''id'' = Some ''urn-a'' \<and> extra_data a' ''email'' = Some []
             \<and> status a' = ''active'' \<and> token_expires_at a' = Some 3600003000
             \<and> a' \<in> set (social_accounts db')"
    by (simp add: sample_user_data_keys sample_account_def)
  then show ?thesis
    using m sample_user_data_keys sample_expiry by blast
qed

lemma sample_encrypted: "encrypt_token (SECRET_KEY sample_settings) ''tok'' = Inr ''EAUK''"
proof -
  have "encrypt_token ''django-insecure-key'' ''tok'' = Inr ''EAUK''"
    by code_simp
  then show ?thesis by (simp add: sample_settings_def)
qed

text \<open>
  Claim C8 as it is written fails: it has a display field overwritten only where the
  new value is not empty. The stored e-mail address of the sample account is
  \<open>ada@example.org\<close>, the new \<open>user_data\<close> has the empty string under \<open>'email'\<close>, and
  the e-mail address of the returned object and of the stored row is empty afterwards.
\<close>

theorem store_tokens_empty_value_counterexample:
  "email (sample_account 3 ''linkedin'' ''urn-a'') = ''ada@example.org''
   \<and> sample_user_data ''email'' = Some []
   \<and> map_sum id (email \<circ> fst)
        (store_tokens sample_settings 3000 1 ''linkedin'' ''tok'' None None None
           (Some sample_user_data) one_linkedin) = Inr []
   \<and> map_sum id (map email \<circ> social_accounts \<circ> snd)
        (store_tokens sample_settings 3000 1 ''linkedin'' ''tok'' None None None
           (Some sample_user_data) one_linkedin) = Inr [[]]"
proof -
  let ?a = "sample_account 3 ''linkedin'' ''urn-a''"
  have g: "objects_get (\<lambda>a. user a = 1 \<and> platform a = ''linkedin'' \<and> platform_user_id a = ''urn-a'')
             (social_accounts one_linkedin) = Inr ?a"
    by (simp add: objects_get_def one_linkedin_accounts sample_account_fields)
  have er: "(if truthy None then encrypt_token (SECRET_KEY sample_settings) (str_or None [])
             else Inr []) = Inr []"
    by (simp add: truthy_def)
  have ne: "''urn-a'' \<noteq> []" by simp
  note s = store_tokens_update
             [where ud=sample_user_data and uid="''urn-a''" and st=sample_settings
                and refresh_tok=None and now=3000 and expires_in=None and scp=None,
              OF compute_expires_at_absent(1) sample_user_data_keys(1) ne g sample_encrypted er]
  show ?thesis
    unfolding s
    by (simp add: save_account_def Let_def one_linkedin_accounts sample_account_fields
        dict_get_def sample_user_data_keys)
qed

text \<open>
  Claim C10. With a refresh token that is \<open>None\<close> or empty, a call of \<open>store_tokens\<close> that
  gets to its lookup (the expiry computation has not raised, \<open>user_data\<close> has an id)
  stores the empty string as refresh token: in the update branch in the returned object
  and in the account's row, whatever refresh token the row held before; in the create
  branch in the new row. The call of \<open>linkedin_callback\<close> is a call with \<open>None\<close>.
\<close>

theorem store_tokens_drops_refresh_token:
  assumes "SECRET_KEY st \<noteq> []" and "compute_expires_at now expires_in = Inr expires"
    and "ud ''id'' = Some uid" and "uid \<noteq> []"
    and "\<not> truthy refresh_tok"
  shows "(distinct (social_accounts db) \<and> acct \<in> set (social_accounts db)
          \<and> user acct = usr \<and> platform acct = plat \<and> platform_user_id acct = uid
          \<and> (\<forall>a\<in>set (social_accounts db).
                 user a = usr \<and> platform a = plat \<and> platform_user_id a = uid \<longrightarrow> a = acct)
          \<longrightarrow> (\<exists>a' db'. store_tokens st now usr plat access_tok refresh_tok expires_in scp
                           (Some ud) db = Inr (a', db')
                 \<and> pk a' = pk acct \<and> refresh_token a' = Some []
                 \<and> db' = db\<lparr>social_accounts :=
                               map (\<lambda>r. if pk r = pk acct then a' else r) (social_accounts db)\<rparr>
                 \<and> a' \<in> set (social_accounts db')
                 \<and> (\<forall>r\<in>set (social_accounts db').
                        pk r = pk acct \<longrightarrow> refresh_token r = Some [])))
       \<and> ((\<forall>a\<in>set (social_accounts db).
              \<not> (user a = usr \<and> platform a = plat \<and> platform_user_id a = uid))
          \<longrightarrow> (\<exists>a' db'. store_tokens st now usr plat access_tok refresh_tok expires_in scp
                           (Some ud) db = Inr (a', db')
                 \<and> refresh_token a' = Some []
                 \<and> social_accounts db' = social_accounts db @ [a']))
       \<and> linkedin_store_tokens st now usr access_tok expires_in scp' ud db
            = store_tokens st now usr ''linkedin'' access_tok None expires_in (Some scp')
                (Some ud) db
       \<and> \<not> truthy None"
proof (intro conjI impI)
  assume h: "distinct (social_accounts db) \<and> acct \<in> set (social_accounts db)
          \<and> user acct = usr \<and> platform acct = plat \<and> platform_user_id acct = uid
          \<and> (\<forall>a\<in>set (social_accounts db).
                 user a = usr \<and> platform a = plat \<and> platform_user_id a = uid \<longrightarrow> a = acct)"
  obtain ea er a' db' where
      s: "store_tokens st now usr plat access_tok refresh_tok expires_in scp (Some ud) db
            = Inr (a', db')"
    and er: "\<not> truthy refresh_tok \<longrightarrow> er = []"
    and a': "a' = acct\<lparr>username := dict_get ud ''username'' (username acct),
                        display_name := dict_get ud ''name'' (display_name acct),
                        email := dict_get ud ''email'' (email acct),
                        profile_url := dict_get ud ''profile_url'' (profile_url acct),
                        avatar_url := dict_get ud ''avatar_url'' (avatar_url acct),
                        access_token := ea,
                        refresh_token := Some er,
                        token_expires_at := expires,
                        scope := str_or scp [],
                        status := ''active'',
                        last_sync := Some now,
                        extra_data := extra_data acct ++ ud,
                        updated_at := now\<rparr>"
    and rows: "db' = db\<lparr>social_accounts :=
                         map (\<lambda>r. if pk r = pk acct then a' else r) (social_accounts db)\<rparr>"
    and m: "a' \<in> set (social_accounts db')"
    and k: "\<forall>r\<in>set (social_accounts db'). pk r = pk acct \<longrightarrow> r = a'"
    using store_tokens_update_saved[where ud=ud and uid=uid and now=now
            and access_tok=access_tok and refresh_tok=refresh_tok
            and expires_in=expires_in and expires=expires and scp=scp and db=db and acct=acct
            and usr=usr and plat=plat, OF assms(1,2,3,4)] h
    by blast
  have f: "pk a' = pk acct" "refresh_token a' = Some []"
    unfolding a' using er assms(5) by simp_all
  with k have "\<forall>r\<in>set (social_accounts db'). pk r = pk acct \<longrightarrow> refresh_token r = Some []"
    by blast
  with s f rows m show "\<exists>a' db'. store_tokens st now usr plat access_tok refresh_tok expires_in scp
                           (Some ud) db = Inr (a', db')
                 \<and> pk a' = pk acct \<and> refresh_token a' = Some []
                 \<and> db' = db\<lparr>social_accounts :=
                               map (\<lambda>r. if pk r = pk acct then a' else r) (social_accounts db)\<rparr>
                 \<and> a' \<in> set (social_accounts db')
                 \<and> (\<forall>r\<in>set (social_accounts db').
                        pk r = pk acct \<longrightarrow> refresh_token r = Some [])"
    by blast
next
  assume none: "\<forall>a\<in>set (social_accounts db).
              \<not> (user a = usr \<and> platform a = plat \<and> platform_user_id a = uid)"
  obtain ea where ea: "encrypt_token (SECRET_KEY st) access_tok = Inr ea"
    using encrypt_token_returns[OF assms(1)] by blast
  have er: "(if truthy refresh_tok
             then encrypt_token (SECRET_KEY st) (str_or refresh_tok [])
             else Inr []) = Inr []"
    using assms(5) by simp
  from store_tokens_create[where ud=ud and uid=uid and st=st and refresh_tok=refresh_tok
         and now=now and expires_in=expires_in and expires=expires and scp=scp,
         OF assms(2,3,4) none ea er]
  show "\<exists>a' db'. store_tokens st now usr plat access_tok refresh_tok expires_in scp
                           (Some ud) db = Inr (a', db')
                 \<and> refresh_token a' = Some []
                 \<and> social_accounts db' = social_accounts db @ [a']"
    by blast
next
  show "linkedin_store_tokens st now usr access_tok expires_in scp' ud db
            = store_tokens st now usr ''linkedin'' access_tok None expires_in (Some scp')
                (Some ud) db"
    by (simp add: linkedin_store_tokens_def)
  show "\<not> truthy None" by (simp add: truthy_def)
qed

theorem store_tokens_drops_refresh_token_witness:
  "\<not> truthy None
   \<and> compute_expires_at 3000 (Some 3600) = Inr (Some 3600003000)
   \<and> refresh_token ((sample_account 3 ''linkedin'' ''urn-a'')\<lparr>refresh_token := Some ''UkVG''\<rparr>)
       = Some ''UkVG''
   \<and> (\<exists>a' db'. store_tokens sample_settings 3000 1 ''linkedin'' ''tok'' None (Some 3600) None
                    (Some sample_user_data)
                    (empty_db\<lparr>social_accounts :=
                       [(sample_account 3 ''linkedin'' ''urn-a'')\<lparr>refresh_token := Some ''UkVG''\<rparr>]\<rparr>)
                  = Inr (a', db')
          \<and> pk a' = 3 \<and> refresh_token a' = Some []
          \<and> a' \<in> set (social_accounts db'))
   \<and> (\<exists>a' db'. store_tokens sample_settings 3000 1 ''linkedin'' ''tok'' None (Some 3600) None
                    (Some sample_user_data) empty_db = Inr (a', db')
          \<and> refresh_token a' = Some [] \<and> social_accounts db' = [a'])"
proof -
  let ?a = "(sample_account 3 ''linkedin'' ''urn-a'')\<lparr>refresh_token := Some ''UkVG''\<rparr>"
  let ?db = "empty_db\<lparr>social_accounts := [?a]\<rparr>"
  have n: "\<not> truthy None" by (simp add: truthy_def)
  have ne: "''urn-a'' \<noteq> []" by simp
  have h: "distinct (social_accounts ?db) \<and> ?a \<in> set (social_accounts ?db)
          \<and> user ?a = 1 \<and> platform ?a = ''linkedin'' \<and> platform_user_id ?a = ''urn-a''
          \<and> (\<forall>a\<in>set (social_accounts ?db).
                 user a = 1 \<and> platform a = ''linkedin'' \<and> platform_user_id a = ''urn-a''
                 \<longrightarrow> a = ?a)"
    by (simp add: sample_account_fields)
  have e: "\<forall>a\<in>set (social_accounts empty_db).
              \<not> (user a = 1 \<and> platform a = ''linkedin'' \<and> platform_user_id a = ''urn-a'')"
    by (simp add: empty_db_def)
  have p: "pk ?a = 3" by (simp add: sample_account_fields)
  have r: "refresh_token ?a = Some ''UkVG''" by simp
  note t1 = store_tokens_drops_refresh_token
              [where ud=sample_user_data and uid="''urn-a''" and st=sample_settings
                 and refresh_tok=None and now=3000 and expires_in="Some 3600" and scp=None
                 and access_tok="''tok''" and usr=1 and plat="''linkedin''"
                 and db="?db" and acct="?a",
               OF sample_secret_key sample_expiry sample_user_data_keys(1) ne n]
  note t2 = store_tokens_drops_refresh_token
              [where ud=sample_user_data and uid="''urn-a''" and st=sample_settings
                 and refresh_tok=None and now=3000 and expires_in="Some 3600" and scp=None
                 and access_tok="''tok''" and usr=1 and plat="''linkedin''"
                 and db=empty_db,
               OF sample_secret_key sample_expiry sample_user_data_keys(1) ne n]
  from t1 h have 1: "\<exists>a' db'. store_tokens sample_settings 3000 1 ''linkedin'' ''tok'' None
                        (Some 3600) None (Some sample_user_data) ?db = Inr (a', db')
          \<and> pk a' = pk ?a \<and> refresh_token a' = Some []
          \<and> a' \<in> set (social_accounts db')"
    by blast
  from t2 e have 2: "\<exists>a' db'. store_tokens sample_settings 3000 1 ''linkedin'' ''tok'' None
                        (Some 3600) None (Some sample_user_data) empty_db = Inr (a', db')
          \<and> refresh_token a' = Some [] \<and> social_accounts db' = social_accounts empty_db @ [a']"
    by blast
  have z: "social_accounts empty_db = []" by (simp add: empty_db_def)
  from 1 2 n r sample_expiry show ?thesis
    unfolding p z by simp
qed
section \<open>PKCE at the Twitter login\<close>

lemma len_b64url: "length b64url_alphabet = 64"
  by (simp add: b64url_alphabet_def)

lemma translate_alphabet:
  "map (\<lambda>c. if c = CHR ''+'' then CHR ''-'' else if c = CHR ''/'' then CHR ''_'' else c)
     b64_alphabet = b64url_alphabet"
  by (simp add: b64_alphabet_def b64url_alphabet_def)

lemma translate_b64_char:
  assumes "n < 64"
  shows "(if b64_char n = CHR ''+'' then CHR ''-''
          else if b64_char n = CHR ''/'' then CHR ''_'' else b64_char n) = b64url_char n"
proof -
  let ?t = "\<lambda>c. if c = CHR ''+'' then CHR ''-'' else if c = CHR ''/'' then CHR ''_'' else c"
  have "b64url_char n = map ?t b64_alphabet ! n"
    by (simp only: translate_alphabet b64url_char_def)
  also have "\<dots> = ?t (b64_alphabet ! n)"
    using assms by (simp add: len_b64)
  finally show ?thesis by (simp add: b64_char_def)
qed

lemma b64url_char_not_pad: "n < 64 \<Longrightarrow> b64url_char n \<noteq> CHR ''=''"
proof -
  assume "n < 64"
  have "CHR ''='' \<notin> set b64url_alphabet" by (simp add: b64url_alphabet_def)
  moreover have "b64url_char n \<in> set b64url_alphabet"
    unfolding b64url_char_def by (rule nth_mem) (simp add: len_b64url \<open>n < 64\<close>)
  ultimately show ?thesis by metis
qed

lemma b64url_char_safe: "n < 64 \<Longrightarrow> b64url_char n \<in> set always_safe"
proof -
  assume "n < 64"
  have "set b64url_alphabet \<subseteq> set always_safe"
    by (simp add: b64url_alphabet_def always_safe_def)
  moreover have "b64url_char n \<in> set b64url_alphabet"
    unfolding b64url_char_def by (rule nth_mem) (simp add: len_b64url \<open>n < 64\<close>)
  ultimately show ?thesis by blast
qed


text \<open>The URL-safe encoding of the code is the encoding of the specification followed
  by pad characters only, and the latter has none, so \<open>rstrip\<close> gives it back.\<close>

lemma urlsafe_b64encode_pads:
  "\<exists>k. urlsafe_b64encode bs = base64url_nopad bs @ replicate k CHR ''=''"
proof (induction bs rule: b64encode.induct)
  case 1
  show ?case by (simp add: urlsafe_b64encode_def)
next
  case (2 a)
  have "urlsafe_b64encode [a] = base64url_nopad [a] @ replicate 2 CHR ''=''"
    using translate_b64_char[OF hi_six[OF byte_lt[of a]]]
          translate_b64_char[OF sextet2_last[of "unat a"]]
    by (simp add: urlsafe_b64encode_def numeral_2_eq_2)
  then show ?case by blast
next
  case (3 a b)
  have "urlsafe_b64encode [a, b] = base64url_nopad [a, b] @ replicate 1 CHR ''=''"
    using translate_b64_char[OF hi_six[OF byte_lt[of a]]]
          translate_b64_char[OF sextet2[OF byte_lt[of b], of "unat a"]]
          translate_b64_char[OF sextet3_last[of "unat b"]]
    by (simp add: urlsafe_b64encode_def)
  then show ?case by blast
next
  case (4 a b c rest)
  then obtain k where k: "urlsafe_b64encode rest = base64url_nopad rest @ replicate k CHR ''=''"
    by blast
  have c4: "unat c mod 64 < 64" by simp
  have "urlsafe_b64encode (a # b # c # rest) =
          b64url_char (unat a div 4) # b64url_char (unat a mod 4 * 16 + unat b div 16) #
          b64url_char (unat b mod 16 * 4 + unat c div 64) # b64url_char (unat c mod 64) #
          urlsafe_b64encode rest"
    using translate_b64_char[OF hi_six[OF byte_lt[of a]]]
          translate_b64_char[OF sextet2[OF byte_lt[of b], of "unat a"]]
          translate_b64_char[OF sextet3[OF byte_lt[of c], of "unat b"]]
          translate_b64_char[OF c4]
    by (simp add: urlsafe_b64encode_def)
  with k have "urlsafe_b64encode (a # b # c # rest) =
                 base64url_nopad (a # b # c # rest) @ replicate k CHR ''=''"
    by simp
  then show ?case by blast
qed

lemma base64url_nopad_chars:
  "CHR ''='' \<notin> set (base64url_nopad bs) \<and> set (base64url_nopad bs) \<subseteq> set always_safe"
proof (induction bs rule: base64url_nopad.induct)
  case 1
  show ?case by simp
next
  case (2 a)
  show ?case
    using b64url_char_not_pad[OF hi_six[OF byte_lt[of a]]]
          b64url_char_not_pad[OF sextet2_last[of "unat a"]]
          b64url_char_safe[OF hi_six[OF byte_lt[of a]]]
          b64url_char_safe[OF sextet2_last[of "unat a"]]
    by simp
next
  case (3 a b)
  show ?case
    using b64url_char_not_pad[OF hi_six[OF byte_lt[of a]]]
          b64url_char_not_pad[OF sextet2[OF byte_lt[of b], of "unat a"]]
          b64url_char_not_pad[OF sextet3_last[of "unat b"]]
          b64url_char_safe[OF hi_six[OF byte_lt[of a]]]
          b64url_char_safe[OF sextet2[OF byte_lt[of b], of "unat a"]]
          b64url_char_safe[OF sextet3_last[of "unat b"]]
    by simp
next
  case (4 a b c rest)
  have c4: "unat c mod 64 < 64" by simp
  show ?case
    using 4
          b64url_char_not_pad[OF hi_six[OF byte_lt[of a]]]
          b64url_char_not_pad[OF sextet2[OF byte_lt[of b], of "unat a"]]
          b64url_char_not_pad[OF sextet3[OF byte_lt[of c], of "unat b"]]
          b64url_char_not_pad[OF c4]
          b64url_char_safe[OF hi_six[OF byte_lt[of a]]]
          b64url_char_safe[OF sextet2[OF byte_lt[of b], of "unat a"]]
          b64url_char_safe[OF sextet3[OF byte_lt[of c], of "unat b"]]
          b64url_char_safe[OF c4]
    by simp
qed

lemma dropWhile_none: "\<forall>x\<in>set ys. \<not> P x \<Longrightarrow> dropWhile P ys = ys"
  by (cases ys) simp_all

lemma rstrip_padding:
  assumes "c \<notin> set xs"
  shows "rstrip c (xs @ replicate k c) = xs"
proof -
  have "dropWhile (\<lambda>x. x = c) (replicate k c @ rev xs) = dropWhile (\<lambda>x. x = c) (rev xs)"
    by (rule dropWhile_append2) simp
  also have "\<dots> = rev xs"
    by (rule dropWhile_none) (use assms in auto)
  finally show ?thesis by (simp add: rstrip_def)
qed

lemma rstrip_urlsafe_b64encode:
  "rstrip CHR ''='' (urlsafe_b64encode bs) = base64url_nopad bs"
proof -
  obtain k where "urlsafe_b64encode bs = base64url_nopad bs @ replicate k CHR ''=''"
    using urlsafe_b64encode_pads by blast
  then show ?thesis
    using rstrip_padding[of "CHR ''=''" "base64url_nopad bs" k] base64url_nopad_chars[of bs]
    by simp
qed

lemma quote_plus_safe: "set s \<subseteq> set always_safe \<Longrightarrow> quote_plus s = s"
  by (induction s) (simp_all add: quote_plus_def)

lemma pkce_code_verifier_nopad:
  "pkce_code_verifier lib = base64url_nopad (token_bytes lib 32)"
  by (simp add: pkce_code_verifier_def rstrip_urlsafe_b64encode)

lemma pkce_code_challenge_nopad:
  "pkce_code_challenge lib v = base64url_nopad (sha256 lib (str_encode v))"
  by (simp add: pkce_code_challenge_def rstrip_urlsafe_b64encode)

lemma quote_plus_challenge: "quote_plus (pkce_code_challenge lib v) = pkce_code_challenge lib v"
  unfolding pkce_code_challenge_nopad
  by (rule quote_plus_safe) (simp add: base64url_nopad_chars)

lemma quote_plus_words:
  "quote_plus ''code_challenge'' = ''code_challenge''"
  "quote_plus ''code_challenge_method'' = ''code_challenge_method''"
  "quote_plus ''S256'' = ''S256''"
  by (rule quote_plus_safe, simp add: always_safe_def)+

text \<open>The redirect of \<open>twitter_login\<close> and the session it stores.\<close>

lemma twitter_login_location:
  "location (fst (twitter_login lib st now usr db)) =
     (''https://twitter.com/i/oauth2/authorize?'' @
      quote_plus ''response_type'' @ ''='' @ quote_plus ''code'' @ ''&'' @
      quote_plus ''client_id'' @ ''='' @ quote_plus (TWITTER_CLIENT_ID st) @ ''&'' @
      quote_plus ''redirect_uri'' @ ''='' @ quote_plus (TWITTER_REDIRECT_URI st) @ ''&'' @
      quote_plus ''scope'' @ ''='' @
        quote_plus ''tweet.read users.read follows.read offline.access'' @ ''&'' @
      quote_plus ''state'' @ ''='' @ quote_plus (token_urlsafe lib 32)) @
     ''&'' @ quote_plus ''code_challenge'' @ ''='' @
       quote_plus (pkce_code_challenge lib (pkce_code_verifier lib)) @
     ''&'' @ quote_plus ''code_challenge_method'' @ ''='' @ quote_plus ''S256'' @
     (''&'' @ quote_plus ''force_login'' @ ''='' @ quote_plus ''true'' @ ''&'' @
      quote_plus ''_t'' @ ''='' @ quote_plus (str_of_int (unix_seconds now)))"
  by (simp add: twitter_login_def Let_def split_beta urlencode_def)

lemma twitter_login_session:
  "session_rows (snd (twitter_login lib st now usr db)) =
     filter_delete (\<lambda>r. session_user r = usr \<and> temp_data r ''platform'' = Some ''twitter'')
       (session_rows db) @
     [\<lparr>session_pk = next_pk db, session_user = usr, session_social_account = None,
       oauth_state = token_urlsafe lib 32,
       code_verifier = pkce_code_verifier lib,
       redirect_uri = TWITTER_REDIRECT_URI st, temp_data = [''platform'' \<mapsto> ''twitter''],
       ip_address = None, user_agent = [], expires_at = now + 1800000000,
       session_created_at = now\<rparr>]"
  by (simp add: twitter_login_def Let_def split_beta create_oauth_session_def str_or_def)

text \<open>
  Claim C9. At \<open>twitter_login\<close> the code verifier is the URL-safe base64 encoding
  without padding of the 32 bytes drawn from \<open>secrets.token_bytes\<close>, the code challenge
  is the URL-safe base64 encoding without padding of the SHA-256 digest of the
  verifier, the authorization URL carries that challenge followed by
  \<open>code_challenge_method=S256\<close>, and the verifier is kept in the session that is stored.
\<close>

theorem twitter_login_pkce:
  "pkce_code_verifier lib = base64url_nopad (token_bytes lib 32)
   \<and> pkce_code_challenge lib (pkce_code_verifier lib)
       = base64url_nopad (sha256 lib (str_encode (pkce_code_verifier lib)))
   \<and> (\<exists>pre post.
         location (fst (twitter_login lib st now usr db))
           = pre @ ''&code_challenge='' @ pkce_code_challenge lib (pkce_code_verifier lib)
                 @ ''&code_challenge_method=S256'' @ post)
   \<and> (\<exists>stored session_data.
         session_rows (snd (twitter_login lib st now usr db)) = stored @ [session_data]
         \<and> code_verifier session_data = pkce_code_verifier lib)"
proof (intro conjI)
  show "pkce_code_verifier lib = base64url_nopad (token_bytes lib 32)"
    by (rule pkce_code_verifier_nopad)
  show "pkce_code_challenge lib (pkce_code_verifier lib)
       = base64url_nopad (sha256 lib (str_encode (pkce_code_verifier lib)))"
    by (rule pkce_code_challenge_nopad)
  show "\<exists>pre post.
         location (fst (twitter_login lib st now usr db))
           = pre @ ''&code_challenge='' @ pkce_code_challenge lib (pkce_code_verifier lib)
                 @ ''&code_challenge_method=S256'' @ post"
    apply (subst twitter_login_location)
    apply (simp only: quote_plus_challenge quote_plus_words)
    apply (rule exI[of _ "''https://twitter.com/i/oauth2/authorize?'' @
      quote_plus ''response_type'' @ ''='' @ quote_plus ''code'' @ ''&'' @
      quote_plus ''client_id'' @ ''='' @ quote_plus (TWITTER_CLIENT_ID st) @ ''&'' @
      quote_plus ''redirect_uri'' @ ''='' @ quote_plus (TWITTER_REDIRECT_URI st) @ ''&'' @
      quote_plus ''scope'' @ ''='' @
        quote_plus ''tweet.read users.read follows.read offline.access'' @ ''&'' @
      quote_plus ''state'' @ ''='' @ quote_plus (token_urlsafe lib 32)"])
    apply (rule exI[of _ "''&'' @ quote_plus ''force_login'' @ ''='' @ quote_plus ''true'' @ ''&'' @
      quote_plus ''_t'' @ ''='' @ quote_plus (str_of_int (unix_seconds now))"])
    apply simp
    done
  show "\<exists>stored session_data.
         session_rows (snd (twitter_login lib st now usr db)) = stored @ [session_data]
         \<and> code_verifier session_data = pkce_code_verifier lib"
    by (subst twitter_login_session) simp
qed

theorem twitter_login_pkce_witness:
  "pkce_code_verifier sample_library = ''BwcHBwcHBwcHBwcHBwcHBwcHBwcHBwcHBwcHBwcHBwc''
   \<and> pkce_code_challenge sample_library (pkce_code_verifier sample_library)
       = ''AAAAAAAAAAAAAAAAAAAAAAAAAAAAAAAAAAAAAAAAAAA''"
proof -
  have t: "token_bytes sample_library 32 = replicate 32 7"
    and h: "sha256 sample_library bs = replicate 32 0" for bs
    by (simp_all add: sample_library_def)
  have v: "base64url_nopad (replicate 32 7) = ''BwcHBwcHBwcHBwcHBwcHBwcHBwcHBwcHBwcHBwcHBwc''"
    by code_simp
  have c: "base64url_nopad (replicate 32 0) = ''AAAAAAAAAAAAAAAAAAAAAAAAAAAAAAAAAAAAAAAAAAA''"
    by code_simp
  from twitter_login_pkce[of sample_library sample_settings 1500 1 empty_db]
  have "pkce_code_verifier sample_library = base64url_nopad (token_bytes sample_library 32)"
    and "pkce_code_challenge sample_library (pkce_code_verifier sample_library)
           = base64url_nopad (sha256 sample_library (str_encode (pkce_code_verifier sample_library)))"
    by blast+
  then show ?thesis
    by (simp only: t h v c)
qed

end
